theory Spec2Isabelle
  imports Main "HOL-Library.Sublist" "HOL-Library.AList"
begin

section \<open>Python values and exceptions\<close>

text \<open>
  Every \<^verbatim>\<open>raise\<close> of the source and every failing built-in operation (a missing
  dictionary key, a call of \<^verbatim>\<open>None\<close>, a read of an attribute that was never
  assigned) is a value of \<open>error\<close>; a fallible function returns \<open>error + 'a\<close>.
\<close>

datatype error =
    KeyError
  | TypeError
  | AttributeError
  | IndexError
  | ApplicationCommandException
  | InteractionException
  | HTTPException

text \<open>JSON-like payload values, as \<^verbatim>\<open>json.loads\<close> hands them to the library.
  Numbers are integers; a dictionary is an association list read with \<open>map_of\<close>.\<close>

datatype pyval =
    PNone
  | PBool bool
  | PInt int
  | PStr string
  | PList "pyval list"
  | PDict "(string \<times> pyval) list"

text \<open>The singleton \<^verbatim>\<open>MISSING\<close> of \<^verbatim>\<open>pycord.missing\<close>: a field is either
  \<open>MISSING\<close> or holds a value, which may itself be \<^verbatim>\<open>None\<close>.\<close>

datatype 'a maybe = MISSING | Given 'a

text \<open>\<^verbatim>\<open>d[k]\<close> on a dictionary held as an association list.\<close>

definition dict_getitem :: "('k \<times> 'v) list \<Rightarrow> 'k \<Rightarrow> error + 'v" where
  "dict_getitem d k = (case map_of d k of None \<Rightarrow> Inl KeyError | Some v \<Rightarrow> Inr v)"

text \<open>\<^verbatim>\<open>xs[i]\<close> on a list or a string of length \<open>n\<close>: the indices
  \<open>0 .. n - 1\<close> read from the front, \<open>-n .. -1\<close> from the back, and any other
  index raises \<^verbatim>\<open>IndexError\<close>.\<close>

definition seq_getitem :: "'a list \<Rightarrow> int \<Rightarrow> error + 'a" where
  "seq_getitem xs i =
     (if 0 \<le> i \<and> i < int (length xs) then Inr (xs ! nat i)
      else if i < 0 \<and> - int (length xs) \<le> i then Inr (xs ! nat (int (length xs) + i))
      else Inl IndexError)"

text \<open>
  \<^verbatim>\<open>v[k]\<close> on a payload value. The keys of a decoded JSON object are strings, so
  \<^verbatim>\<open>None\<close>, a boolean, an integer or \<^verbatim>\<open>MISSING\<close> is a key that is not there
  (\<^verbatim>\<open>KeyError\<close>) and a list or a dictionary cannot be hashed (\<^verbatim>\<open>TypeError\<close>);
  a list or a string takes an integer index (a boolean counts as 0 or 1);
  \<^verbatim>\<open>None\<close>, booleans and integers are not subscriptable.
\<close>

fun getitem :: "pyval \<Rightarrow> pyval maybe \<Rightarrow> error + pyval" where
  "getitem (PDict d) (Given (PStr k)) = dict_getitem d k"
| "getitem (PDict d) (Given (PList xs)) = Inl TypeError"
| "getitem (PDict d) (Given (PDict kvs)) = Inl TypeError"
| "getitem (PDict d) k = Inl KeyError"
| "getitem (PList xs) (Given (PInt i)) = seq_getitem xs i"
| "getitem (PList xs) (Given (PBool b)) = seq_getitem xs (if b then 1 else 0)"
| "getitem (PList xs) k = Inl TypeError"
| "getitem (PStr s) (Given (PInt i)) = map_sum id (\<lambda>c. PStr [c]) (seq_getitem s i)"
| "getitem (PStr s) (Given (PBool b)) = map_sum id (\<lambda>c. PStr [c]) (seq_getitem s (if b then 1 else 0))"
| "getitem (PStr s) k = Inl TypeError"
| "getitem v k = Inl TypeError"

text \<open>\<^verbatim>\<open>v.get(k)\<close>: only a dictionary has the method.\<close>

fun py_get :: "pyval \<Rightarrow> string \<Rightarrow> error + pyval" where
  "py_get (PDict d) k = Inr (case map_of d k of None \<Rightarrow> PNone | Some v \<Rightarrow> v)"
| "py_get v k = Inl AttributeError"

text \<open>\<^verbatim>\<open>v == n\<close> for an integer literal \<open>n\<close>: Python compares \<^verbatim>\<open>True\<close> and
  \<^verbatim>\<open>False\<close> as 1 and 0, and nothing else of a payload equals an integer.\<close>

fun py_eq_int :: "pyval \<Rightarrow> int \<Rightarrow> bool" where
  "py_eq_int (PInt i) n = (i = n)"
| "py_eq_int (PBool b) n = ((if b then 1 else 0) = n)"
| "py_eq_int _ n = False"

text \<open>Truthiness of a payload value (\<^verbatim>\<open>if v:\<close>).\<close>

fun truthy :: "pyval \<Rightarrow> bool" where
  "truthy PNone = False"
| "truthy (PBool b) = b"
| "truthy (PInt i) = (i \<noteq> 0)"
| "truthy (PStr s) = (s \<noteq> [])"
| "truthy (PList xs) = (xs \<noteq> [])"
| "truthy (PDict kvs) = (kvs \<noteq> [])"

section \<open>InteractionResponse (interaction.py)\<close>

text \<open>
  \<^verbatim>\<open>InteractionResponse\<close> holds the flag \<^verbatim>\<open>responded\<close>. The HTTP client is the
  collaborator \<^verbatim>\<open>self._parent._state.http\<close>: the model keeps the list of requests
  issued so far, and a \<open>transport\<close> decides, from that history and the request, whether
  \<^verbatim>\<open>create_interaction_response\<close> raises.
\<close>

record http_request =
  interaction_id :: pyval
  token :: pyval
  body :: pyval

type_synonym transport = "http_request list \<Rightarrow> http_request \<Rightarrow> error option"

record interaction_response =
  parent_id :: pyval
  parent_token :: pyval
  responded :: bool
  issued :: "http_request list"

record send_args =
  content :: pyval
  tts :: pyval
  embeds :: pyval
  flags :: pyval

definition response_body :: "send_args \<Rightarrow> pyval" where
  "response_body a =
     PDict [(''type'', PInt 4),
            (''data'', PDict [(''content'', content a), (''tts'', tts a),
                              (''embeds'', embeds a), (''flags'', flags a)])]"

text \<open>\<^verbatim>\<open>InteractionResponse.send\<close>: the raised exception (or \<open>None\<close>) and the object
  afterwards.\<close>

definition send :: "transport \<Rightarrow> interaction_response \<Rightarrow> send_args \<Rightarrow> error option \<times> interaction_response" where
  "send http self a =
     (if responded self then (Some InteractionException, self)
      else
        let req = \<lparr>interaction_id = parent_id self, token = parent_token self,
                   body = response_body a\<rparr>;
            self' = self\<lparr>issued := issued self @ [req]\<rparr>
        in case http (issued self) req of
             Some e \<Rightarrow> (Some e, self')
           | None \<Rightarrow> (None, self'\<lparr>responded := True\<rparr>))"

text \<open>A caller sending repeatedly on the same object: the outcome of every call, and the
  object at the end.\<close>

fun sends :: "transport \<Rightarrow> interaction_response \<Rightarrow> send_args list \<Rightarrow> error option list \<times> interaction_response" where
  "sends http self [] = ([], self)"
| "sends http self (a # as) =
     (let (r, self') = send http self a;
          (rs, self'') = sends http self' as
      in (r # rs, self''))"

text \<open>\<^verbatim>\<open>InteractionResponse.__init__\<close>.\<close>

definition new_response :: "pyval \<Rightarrow> pyval \<Rightarrow> interaction_response" where
  "new_response pid ptoken = \<lparr>parent_id = pid, parent_token = ptoken, responded = False, issued = []\<rparr>"

text \<open>A sample call \<^verbatim>\<open>send('hello')\<close> with the defaults of the other parameters.\<close>

definition hello_args :: send_args where
  "hello_args = \<lparr>content = PStr ''hello'', tts = PBool False, embeds = PList [], flags = PInt 0\<rparr>"

section \<open>Channels (channel.py)\<close>

text \<open>The classes of the channel hierarchy that \<^verbatim>\<open>CHANNEL_TYPE\<close> lists.\<close>

datatype channel_class =
    TextChannel
  | DMChannel
  | VoiceChannel
  | GroupDMChannel
  | CategoryChannel
  | AnnouncementChannel
  | AnnouncementThread
  | Thread
  | StageChannel
  | DirectoryChannel
  | ForumChannel
  | Channel

text \<open>The comment \<^verbatim>\<open># Type n\<close> that opens each concrete class of channel.py
  (\<^verbatim>\<open># Type 11 & 12\<close> on \<^verbatim>\<open>Thread\<close>); the base class carries none.\<close>

fun type_comment :: "channel_class \<Rightarrow> int list" where
  "type_comment TextChannel = [0]"
| "type_comment DMChannel = [1]"
| "type_comment VoiceChannel = [2]"
| "type_comment GroupDMChannel = [3]"
| "type_comment CategoryChannel = [4]"
| "type_comment AnnouncementChannel = [5]"
| "type_comment Thread = [11, 12]"
| "type_comment AnnouncementThread = [10]"
| "type_comment StageChannel = [13]"
| "type_comment DirectoryChannel = [14]"
| "type_comment ForumChannel = [15]"
| "type_comment Channel = []"

text \<open>
  \<^verbatim>\<open>identify_channel(data, state)\<close>. The constructors \<^verbatim>\<open>cls(data, state)\<close> read
  their fields through \<^verbatim>\<open>Snowflake\<close>, \<^verbatim>\<open>ChannelType\<close>, \<^verbatim>\<open>ChannelFlags\<close> and
  \<^verbatim>\<open>datetime\<close>, which are outside channel.py, so the function takes them as the
  parameter \<open>init\<close>: \<open>init cls data\<close> is the object \<^verbatim>\<open>cls(data, state)\<close>, or the
  exception it raises.
\<close>

definition identify_channel ::
  "(channel_class \<Rightarrow> pyval \<Rightarrow> error + 'c) \<Rightarrow> pyval \<Rightarrow> error + 'c" where
  "identify_channel init data =
     (case getitem data (Given (PStr ''type'')) of
        Inl e \<Rightarrow> Inl e
      | Inr type \<Rightarrow>
          if py_eq_int type 0 then init TextChannel data
          else if py_eq_int type 1 then init DMChannel data
          else if py_eq_int type 2 then init VoiceChannel data
          else if py_eq_int type 4 then init CategoryChannel data
          else if py_eq_int type 5 then init AnnouncementChannel data
          else if py_eq_int type 10 then init AnnouncementThread data
          else if py_eq_int type 11 \<or> py_eq_int type 12 then init Thread data
          else if py_eq_int type 13 then init StageChannel data
          else if py_eq_int type 14 then init DirectoryChannel data
          else if py_eq_int type 15 then init ForumChannel data
          else init Channel data)"

text \<open>An object seen from outside: its class and the payload it was built from. This
  constructor never raises.\<close>

definition instance_of :: "channel_class \<Rightarrow> pyval \<Rightarrow> error + (channel_class \<times> pyval)" where
  "instance_of cls data = Inr (cls, data)"

text \<open>A group DM payload.\<close>

definition group_dm_payload :: pyval where
  "group_dm_payload =
     PDict [(''id'', PStr ''319674150115610528''), (''type'', PInt 3), (''name'', PStr ''friends'')]"

section \<open>Options of a command (commands/application/command.py)\<close>

subsection \<open>Small pieces of Python\<close>

text \<open>\<^verbatim>\<open>str.lower()\<close> on ASCII text: the letters A to Z move to a to z.\<close>

definition lower_char :: "char \<Rightarrow> char" where
  "lower_char c =
     (case map_of (zip ''ABCDEFGHIJKLMNOPQRSTUVWXYZ'' ''abcdefghijklmnopqrstuvwxyz'') c of
        None \<Rightarrow> c
      | Some l \<Rightarrow> l)"

definition lower :: "string \<Rightarrow> string" where
  "lower s = map lower_char s"

text \<open>\<^verbatim>\<open>a in b\<close> on two strings: \<open>a\<close> occurs in \<open>b\<close> as a contiguous run.\<close>

definition str_contains :: "string \<Rightarrow> string \<Rightarrow> bool" where
  "str_contains a b = sublist a b"

text \<open>Truthiness of an argument whose default is \<^verbatim>\<open>MISSING\<close>. The class
  \<^verbatim>\<open>MissingEnum\<close> lives in missing.py, outside src; the source tests such arguments
  with \<^verbatim>\<open>if autocomplete:\<close> and \<^verbatim>\<open>name or func.__name__\<close>, which takes
  \<^verbatim>\<open>MISSING\<close> as false.\<close>

fun truthy_maybe :: "pyval maybe \<Rightarrow> bool" where
  "truthy_maybe MISSING = False"
| "truthy_maybe (Given v) = truthy v"

fun truthy_list :: "'a list maybe \<Rightarrow> bool" where
  "truthy_list MISSING = False"
| "truthy_list (Given xs) = (xs \<noteq> [])"

text \<open>A list comprehension whose element expression may raise: the first exception
  ends it.\<close>

fun map_result :: "('a \<Rightarrow> error + 'b) \<Rightarrow> 'a list \<Rightarrow> error + 'b list" where
  "map_result f [] = Inr []"
| "map_result f (x # xs) =
     (case f x of
        Inl e \<Rightarrow> Inl e
      | Inr y \<Rightarrow> (case map_result f xs of Inl e \<Rightarrow> Inl e | Inr ys \<Rightarrow> Inr (y # ys)))"

text \<open>A callback: a Python function, known by \<^verbatim>\<open>__name__\<close> and \<^verbatim>\<open>__doc__\<close>.\<close>

record func =
  fn_name :: string
  fn_doc :: "string option"

subsection \<open>CommandChoice\<close>

text \<open>\<^verbatim>\<open>CommandChoice.__init__\<close> assigns \<^verbatim>\<open>self.value\<close> only when the argument
  \<^verbatim>\<open>value\<close> is \<^verbatim>\<open>None\<close>; \<open>c_value = None\<close> is an object without that
  attribute.\<close>

record command_choice =
  c_name :: string
  c_value :: "string option"
  c_name_localizations :: pyval

definition CommandChoice :: "string \<Rightarrow> pyval \<Rightarrow> pyval \<Rightarrow> command_choice" where
  "CommandChoice name name_localizations val =
     \<lparr>c_name = name,
      c_value = (if val = PNone then Some name else None),
      c_name_localizations = name_localizations\<rparr>"

text \<open>\<^verbatim>\<open>CommandChoice._to_dict\<close>.\<close>

definition choice_to_dict :: "command_choice \<Rightarrow> error + pyval" where
  "choice_to_dict c =
     (case c_value c of
        None \<Rightarrow> Inl AttributeError
      | Some v \<Rightarrow>
          Inr (PDict [(''name'', PStr (c_name c)), (''value'', PStr v),
                      (''name_localizations'', c_name_localizations c)]))"

subsection \<open>Option\<close>

text \<open>The argument \<^verbatim>\<open>type\<close> of \<^verbatim>\<open>Option.__init__\<close>: a member of the enum
  \<^verbatim>\<open>ApplicationCommandOptionType\<close> (with its \<^verbatim>\<open>.value\<close>), an integer, or a
  Python type to look up in \<^verbatim>\<open>_OPTION_BIND\<close>.\<close>

datatype py_type = Str_t | Int_t | Bool_t | Float_t | User_t | Channel_t | Role_t | Attachment_t
  | Other_t string

datatype type_arg = EnumMember int | IntValue int | PyType py_type

text \<open>Modelled from the spec: the enum \<^verbatim>\<open>ApplicationCommandOptionType\<close> (enums.py)
  is missing from src; the table \<^verbatim>\<open>_OPTION_BIND\<close> is given with the wire codes of
  the members it names, the codes \<^verbatim>\<open>_process_options\<close> tests.\<close>

fun OPTION_BIND :: "py_type \<Rightarrow> int option" where
  "OPTION_BIND Str_t = Some 3"
| "OPTION_BIND Int_t = Some 4"
| "OPTION_BIND Bool_t = Some 5"
| "OPTION_BIND Float_t = Some 10"
| "OPTION_BIND User_t = Some 6"
| "OPTION_BIND Channel_t = Some 7"
| "OPTION_BIND Role_t = Some 8"
| "OPTION_BIND Attachment_t = Some 11"
| "OPTION_BIND (Other_t n) = None"

fun resolve_type :: "type_arg \<Rightarrow> error + int" where
  "resolve_type (EnumMember v) = Inr v"
| "resolve_type (IntValue i) = Inr i"
| "resolve_type (PyType t) = (case OPTION_BIND t of None \<Rightarrow> Inl KeyError | Some v \<Rightarrow> Inr v)"

text \<open>The completer of an option: the module's \<^verbatim>\<open>_autocomplete\<close> or a function of
  the caller's, known by name.\<close>

datatype completer = Default_autocomplete | Custom string

text \<open>An attribute that \<^verbatim>\<open>__init__\<close> does not assign: absent, \<^verbatim>\<open>None\<close>, or a
  function.\<close>

datatype callback_attr = Unset | IsNone | Fn func

text \<open>The key of \<^verbatim>\<open>_subs\<close> and \<^verbatim>\<open>_options_dict\<close>: the argument \<^verbatim>\<open>name\<close>
  as the caller gave it.\<close>

datatype name_arg = NMissing | NNone | NStr string

text \<open>
  An \<^verbatim>\<open>Option\<close> object: its scalar attributes, its list \<^verbatim>\<open>options\<close> and its
  dictionary \<^verbatim>\<open>_subs\<close>. Objects are values here: where Python mutates
  \<^verbatim>\<open>self\<close>, the model returns the object after the call, and a container holds the
  option as it was when it was put there.
\<close>

record option_fields =
  o_type :: int
  o_autocompleter :: completer
  o_name :: "string option"
  o_name_localizations :: "pyval maybe"
  o_description :: string
  o_description_localizations :: "pyval maybe"
  o_required :: "pyval maybe"
  o_choices :: "pyval maybe"
  o_private_choices :: "command_choice list option"
  o_channel_types :: "pyval maybe"
  o_min_value :: "pyval maybe"
  o_max_value :: "pyval maybe"
  o_autocomplete :: "pyval maybe"
  o_level :: int
  o_callback :: callback_attr
  o_param :: "string option"

datatype option_obj =
  Option (attrs: option_fields) (options: "option_obj list") (subs: "(name_arg \<times> option_obj) list")

record option_args =
  a_name :: "string option"
  a_description :: "string option"
  a_type :: type_arg
  a_name_localizations :: "pyval maybe"
  a_description_localizations :: "pyval maybe"
  a_required :: "pyval maybe"
  a_choices :: "command_choice list maybe"
  a_options :: "option_obj list maybe"
  a_channel_types :: "pyval maybe"
  a_min_value :: "pyval maybe"
  a_max_value :: "pyval maybe"
  a_autocomplete :: "pyval maybe"
  a_autocompleter :: completer

text \<open>The defaults of the parameters of \<^verbatim>\<open>Option.__init__\<close>.\<close>

definition default_args :: option_args where
  "default_args =
     \<lparr>a_name = None, a_description = None, a_type = EnumMember 3,
      a_name_localizations = MISSING, a_description_localizations = MISSING,
      a_required = MISSING, a_choices = MISSING, a_options = MISSING,
      a_channel_types = MISSING, a_min_value = MISSING, a_max_value = MISSING,
      a_autocomplete = MISSING, a_autocompleter = Default_autocomplete\<rparr>"

text \<open>\<^verbatim>\<open>description or 'No description provided'\<close>.\<close>

fun or_default :: "string option \<Rightarrow> string \<Rightarrow> string" where
  "or_default None d = d"
| "or_default (Some s) d = (if s = [] then d else s)"

text \<open>\<^verbatim>\<open>Option.__init__\<close>, in the order of its statements: the type (a
  \<^verbatim>\<open>KeyError\<close> when the Python type is not in the table), then the choices (an
  \<^verbatim>\<open>AttributeError\<close> from \<^verbatim>\<open>_to_dict\<close> on a choice without
  \<^verbatim>\<open>value\<close>), then the rest. \<^verbatim>\<open>_level\<close> is the class attribute 0.\<close>

definition Option_init :: "option_args \<Rightarrow> error + option_obj" where
  "Option_init a =
     (case resolve_type (a_type a) of
        Inl e \<Rightarrow> Inl e
      | Inr t \<Rightarrow>
          (case (if truthy_maybe (a_autocomplete a)
                 then Inr (Given (PList []),
                           Some (if truthy_list (a_choices a)
                                 then (case a_choices a of Given cs \<Rightarrow> cs | MISSING \<Rightarrow> [])
                                 else []))
                 else if truthy_list (a_choices a)
                 then (case map_result choice_to_dict (case a_choices a of Given cs \<Rightarrow> cs | MISSING \<Rightarrow> []) of
                         Inl e \<Rightarrow> Inl e
                       | Inr ds \<Rightarrow> Inr (Given (PList ds), None))
                 else Inr (MISSING, None)) of
             Inl e \<Rightarrow> Inl e
           | Inr (choices, private_choices) \<Rightarrow>
               Inr (Option
                 \<lparr>o_type = t,
                  o_autocompleter = a_autocompleter a,
                  o_name = a_name a,
                  o_name_localizations = a_name_localizations a,
                  o_description = or_default (a_description a) ''No description provided'',
                  o_description_localizations = a_description_localizations a,
                  o_required = a_required a,
                  o_choices = choices,
                  o_private_choices = private_choices,
                  o_channel_types = a_channel_types a,
                  o_min_value = a_min_value a,
                  o_max_value = a_max_value a,
                  o_autocomplete = a_autocomplete a,
                  o_level = 0,
                  o_callback = Unset,
                  o_param = None\<rparr>
                 (case a_options a of MISSING \<Rightarrow> [] | Given os \<Rightarrow> os)
                 [])))"

subsection \<open>Serialising an option\<close>

text \<open>Modelled from the spec: \<^verbatim>\<open>remove_undefined\<close> (utils.py) is missing from src.
  The spec's rule for serialisers is "drop key if unset; emit null if explicit null; emit
  value otherwise": of the keyword arguments, in their order, those whose value is
  \<^verbatim>\<open>MISSING\<close> are left out and every other one is kept with its value.\<close>

fun remove_undefined :: "(string \<times> pyval maybe) list \<Rightarrow> (string \<times> pyval) list" where
  "remove_undefined [] = []"
| "remove_undefined ((k, MISSING) # kwargs) = remove_undefined kwargs"
| "remove_undefined ((k, Given v) # kwargs) = (k, v) # remove_undefined kwargs"

text \<open>\<^verbatim>\<open>str | None\<close> as a payload value.\<close>

fun of_str_option :: "string option \<Rightarrow> pyval" where
  "of_str_option None = PNone"
| "of_str_option (Some s) = PStr s"

text \<open>The keyword arguments \<^verbatim>\<open>Option.to_dict\<close> hands to
  \<^verbatim>\<open>remove_undefined\<close>; \<open>sub_dicts\<close> are the dictionaries of the nested options.\<close>

definition to_dict_kwargs :: "option_fields \<Rightarrow> pyval list \<Rightarrow> (string \<times> pyval maybe) list" where
  "to_dict_kwargs f sub_dicts =
     [(''type'', Given (PInt (o_type f))),
      (''name'', Given (of_str_option (o_name f))),
      (''name_localizations'', o_name_localizations f),
      (''description'', Given (PStr (o_description f))),
      (''description_localizations'', o_description_localizations f),
      (''required'', o_required f),
      (''choices'', o_choices f),
      (''options'', Given (PList sub_dicts)),
      (''channel_types'', o_channel_types f),
      (''min_value'', o_min_value f),
      (''max_value'', o_max_value f),
      (''autocomplete'', o_autocomplete f)]"

text \<open>\<^verbatim>\<open>Option.to_dict\<close>.\<close>

fun to_dict :: "option_obj \<Rightarrow> (string \<times> pyval) list" where
  "to_dict (Option f os ss) =
     remove_undefined (to_dict_kwargs f (map (\<lambda>option. PDict (to_dict option)) os))"

subsection \<open>Attaching sub-commands\<close>

text \<open>\<^verbatim>\<open>name or func.__name__.lower()\<close>.\<close>

fun name_or :: "name_arg \<Rightarrow> string \<Rightarrow> string" where
  "name_or (NStr s) d = (if s = [] then d else s)"
| "name_or n d = d"

text \<open>\<^verbatim>\<open>description or func.__doc__ or 'No description provided'\<close>.\<close>

definition description_or :: "name_arg \<Rightarrow> string option \<Rightarrow> string" where
  "description_or description doc =
     name_or description (or_default doc ''No description provided'')"

text \<open>The \<^verbatim>\<open>Option(type=1, ...)\<close> that both \<^verbatim>\<open>command\<close> decorators build.\<close>

definition sub_command_args :: "name_arg \<Rightarrow> name_arg \<Rightarrow> pyval maybe \<Rightarrow> pyval maybe \<Rightarrow> func \<Rightarrow> option_args" where
  "sub_command_args name description name_localizations description_localizations func =
     default_args
       \<lparr>a_type := IntValue 1,
        a_name := Some (name_or name (lower (fn_name func))),
        a_description := Some (description_or description (fn_doc func)),
        a_name_localizations := name_localizations,
        a_description_localizations := description_localizations\<rparr>"

text \<open>
  \<^verbatim>\<open>Option.command(name, description, ...)(func)\<close>: the decorator applied to
  \<open>func\<close>. It returns \<open>self\<close> after the call and the new sub-command, or the
  exception raised.
\<close>

definition Option_command ::
  "option_obj \<Rightarrow> name_arg \<Rightarrow> name_arg \<Rightarrow> pyval maybe \<Rightarrow> pyval maybe \<Rightarrow> func \<Rightarrow> error + (option_obj \<times> option_obj)" where
  "Option_command self name description name_localizations description_localizations func =
     (case Option_init (sub_command_args name description name_localizations description_localizations func) of
        Inl e \<Rightarrow> Inl e
      | Inr (Option cf cos css) \<Rightarrow>
          if o_level (attrs self) = 2 then Inl ApplicationCommandException
          else
            let command = Option (cf\<lparr>o_callback := Fn func, o_level := o_level (attrs self) + 1\<rparr>) cos css;
                self1 = (if subs self = []
                         then Option ((attrs self)\<lparr>o_callback := IsNone\<rparr>) [] (subs self)
                         else self);
                self2 = Option (attrs self1) (options self1 @ [command])
                               (AList.update name command (subs self1));
                self3 = (if o_type (attrs self2) = 1
                         then Option ((attrs self2)\<lparr>o_type := 2\<rparr>) (options self2) (subs self2)
                         else self2)
            in Inr (self3, command))"

subsection \<open>ApplicationCommand\<close>

text \<open>
  The attributes of an \<^verbatim>\<open>ApplicationCommand\<close> that the functions below read or
  write. \<^verbatim>\<open>_subs\<close> exists only on a command built with type 1
  (\<open>ac_subs = None\<close> otherwise); \<^verbatim>\<open>_options\<close> is the list of serialised options
  (\<open>ac_options_payload\<close>). \<^verbatim>\<open>options\<close> and \<^verbatim>\<open>_options_dict\<close> are assigned
  by \<^verbatim>\<open>_parse_arguments\<close> on every command that is not a user or message
  command; on those two kinds nothing below reads them.
\<close>

record application_command =
  ac_name :: string
  ac_type :: int
  ac_guild_id :: "int option"
  ac_id :: "pyval maybe"
  ac_options :: "option_obj list"
  ac_options_dict :: "(name_arg \<times> option_obj) list"
  ac_options_payload :: "pyval list"
  ac_subs :: "(name_arg \<times> option_obj) list option"
  ac_callback :: "func option"
  ac_created :: bool

text \<open>\<^verbatim>\<open>ApplicationCommand.command(name, description, ...)(func)\<close>.\<close>

definition ApplicationCommand_command ::
  "application_command \<Rightarrow> name_arg \<Rightarrow> name_arg \<Rightarrow> pyval maybe \<Rightarrow> pyval maybe \<Rightarrow> func
   \<Rightarrow> error + (application_command \<times> option_obj)" where
  "ApplicationCommand_command self name description name_localizations description_localizations func =
     (if ac_type self \<noteq> 1 then Inl ApplicationCommandException
      else
        case Option_init (sub_command_args name description name_localizations description_localizations func) of
          Inl e \<Rightarrow> Inl e
        | Inr (Option cf cos css) \<Rightarrow>
            let command = Option (cf\<lparr>o_callback := Fn func, o_level := 1\<rparr>) cos css in
            (case ac_subs self of
               None \<Rightarrow> Inl AttributeError
             | Some ss \<Rightarrow>
                 let self1 = (if ss = []
                              then self\<lparr>ac_options := [], ac_options_dict := [],
                                        ac_options_payload := [], ac_callback := None\<rparr>
                              else self)
                 in Inr (self1\<lparr>ac_options := ac_options self1 @ [command],
                                ac_options_dict := AList.update name command (ac_options_dict self1),
                                ac_options_payload := ac_options_payload self1 @ [PDict (to_dict command)],
                                ac_subs := Some (AList.update name command ss)\<rparr>,
                         command)))"

text \<open>A chat-input command (type 1) as \<^verbatim>\<open>__init__\<close> leaves it when its callback
  takes the interaction alone: no options, an empty \<^verbatim>\<open>_subs\<close>, not yet created.\<close>

definition plain_command :: "string \<Rightarrow> func \<Rightarrow> int option \<Rightarrow> application_command" where
  "plain_command name callback guild_id =
     \<lparr>ac_name = name, ac_type = 1, ac_guild_id = guild_id, ac_id = MISSING,
      ac_options = [], ac_options_dict = [], ac_options_payload = [],
      ac_subs = Some [], ac_callback = Some callback, ac_created = False\<rparr>"

section \<open>Decoding an interaction (ApplicationCommand._process_options)\<close>

text \<open>An \<^verbatim>\<open>InteractionOption\<close>: one node of the option tree of a received
  interaction, with \<^verbatim>\<open>name\<close>, \<^verbatim>\<open>type\<close>, \<^verbatim>\<open>value\<close> and
  \<^verbatim>\<open>options\<close>.\<close>

datatype interaction_option =
  InteractionOption (io_name: string) (io_type: int) (io_value: "pyval maybe")
    (io_options: "interaction_option list")

text \<open>
  The attributes of an \<^verbatim>\<open>Interaction\<close> that the command reads. \<open>'e\<close> is the type
  of the library's entity objects (users, members, roles, channels, attachments,
  messages).
\<close>

record 'e interaction =
  i_type :: int
  i_data :: "pyval maybe"
  i_guild_id :: "int maybe"
  i_options :: "interaction_option list"
  i_member :: "'e maybe"
  i_user :: "'e maybe"

text \<open>
  What the decoder calls and does not define: the constructors of the entity classes
  (\<^verbatim>\<open>User\<close>, \<^verbatim>\<open>Attachment\<close> and \<^verbatim>\<open>Message\<close> are outside src;
  \<^verbatim>\<open>Member\<close>, \<^verbatim>\<open>Role\<close> and the channel classes read their fields through
  classes outside src), each returning the object or the exception it raises; the
  assignment \<^verbatim>\<open>member.user = user\<close>; Python's \<^verbatim>\<open>repr\<close> and
  \<^verbatim>\<open>str.lower\<close> (which follows Unicode) as the default completer uses them; the
  completers that callers register, by name; and \<^verbatim>\<open>interaction.response.autocomplete\<close>, a
  method that the \<^verbatim>\<open>InteractionResponse\<close> of interaction.py does not define, as the
  exception that awaiting it with the choices raises, if any.
\<close>

record 'e runtime =
  User :: "pyval \<Rightarrow> error + 'e"
  Member :: "pyval \<Rightarrow> int option \<Rightarrow> error + 'e"
  set_user :: "'e \<Rightarrow> 'e \<Rightarrow> 'e"
  Role :: "pyval \<Rightarrow> error + 'e"
  Attachment :: "pyval \<Rightarrow> error + 'e"
  Message :: "pyval \<Rightarrow> error + 'e"
  channel_init :: "channel_class \<Rightarrow> pyval \<Rightarrow> error + 'e"
  repr :: "pyval \<Rightarrow> string"
  str_lower :: "string \<Rightarrow> string"
  custom_completer :: "string \<Rightarrow> option_obj \<Rightarrow> pyval \<Rightarrow> error + pyval"
  response_autocomplete :: "pyval \<Rightarrow> error option"

text \<open>A value bound to a parameter: the raw value of the node or an entity object.\<close>

datatype 'e bound = Raw "pyval maybe" | Obj 'e

text \<open>What a run does that the caller can observe: a callback awaited with its
  arguments after the interaction (positional, then keyword), a completer awaited with
  the option and the partial input, and the choices handed to
  \<^verbatim>\<open>interaction.response.autocomplete\<close>. Callbacks are the caller's functions; the
  model takes them to return normally.\<close>

datatype 'e event =
    Called func "'e bound list" "(string \<times> 'e bound) list"
  | Completer_called completer option_obj pyval
  | Autocomplete_sent pyval

text \<open>\<^verbatim>\<open>await self._callback(interaction, ...)\<close>: calling \<^verbatim>\<open>None\<close> is a
  \<^verbatim>\<open>TypeError\<close>.\<close>

fun call :: "func option \<Rightarrow> 'e bound list \<Rightarrow> (string \<times> 'e bound) list \<Rightarrow> 'e event list \<Rightarrow> error + 'e event list" where
  "call None args kwargs tr = Inl TypeError"
| "call (Some f) args kwargs tr = Inr (tr @ [Called f args kwargs])"

text \<open>\<^verbatim>\<open>await sub._callback(interaction, **opts)\<close> on an option: reading an
  attribute that was never assigned is an \<^verbatim>\<open>AttributeError\<close>.\<close>

fun call_attr :: "callback_attr \<Rightarrow> 'e bound list \<Rightarrow> (string \<times> 'e bound) list \<Rightarrow> 'e event list \<Rightarrow> error + 'e event list" where
  "call_attr Unset args kwargs tr = Inl AttributeError"
| "call_attr IsNone args kwargs tr = Inl TypeError"
| "call_attr (Fn f) args kwargs tr = Inr (tr @ [Called f args kwargs])"

text \<open>\<^verbatim>\<open>if interaction.guild_id:\<close> : \<^verbatim>\<open>MISSING\<close> is false, and a
  \<^verbatim>\<open>Snowflake\<close> is an integer, true unless zero.\<close>

fun guild_truthy :: "int maybe \<Rightarrow> bool" where
  "guild_truthy MISSING = False"
| "guild_truthy (Given g) = (g \<noteq> 0)"

fun guild_kwarg :: "int maybe \<Rightarrow> int option" where
  "guild_kwarg MISSING = None"
| "guild_kwarg (Given g) = Some g"

text \<open>Sequencing of two steps that may raise.\<close>

definition bind_result :: "error + 'a \<Rightarrow> ('a \<Rightarrow> error + 'b) \<Rightarrow> error + 'b" where
  "bind_result r f = (case r of Inl e \<Rightarrow> Inl e | Inr x \<Rightarrow> f x)"

text \<open>\<^verbatim>\<open>interaction.data['resolved']\<close>.\<close>

definition resolved :: "'e interaction \<Rightarrow> error + pyval" where
  "resolved interaction =
     (case i_data interaction of
        MISSING \<Rightarrow> Inl TypeError
      | Given d \<Rightarrow> getitem d (Given (PStr ''resolved'')))"

text \<open>\<^verbatim>\<open>interaction.data['resolved'][kind][value]\<close>.\<close>

definition resolved_lookup :: "'e interaction \<Rightarrow> string \<Rightarrow> pyval maybe \<Rightarrow> error + pyval" where
  "resolved_lookup interaction kind val =
     bind_result (resolved interaction) (\<lambda>r.
     bind_result (getitem r (Given (PStr kind))) (\<lambda>m. getitem m val))"

text \<open>\<^verbatim>\<open>binding[o._param] = x\<close>, once \<open>x\<close> is computed.\<close>

definition bind_param :: "option_obj \<Rightarrow> 'e bound \<Rightarrow> (string \<times> 'e bound) list \<Rightarrow> error + (string \<times> 'e bound) list" where
  "bind_param opt x binding =
     (case o_param (attrs opt) of
        None \<Rightarrow> Inl AttributeError
      | Some p \<Rightarrow> Inr (AList.update p x binding))"

text \<open>The user/member resolution of the branches for types 6 and 9; \<open>guild\<close> is the
  \<^verbatim>\<open>guild_id\<close> keyword that the branch passes to \<^verbatim>\<open>Member\<close>.\<close>

definition resolve_user :: "'e runtime \<Rightarrow> 'e interaction \<Rightarrow> pyval maybe \<Rightarrow> int option \<Rightarrow> error + 'e" where
  "resolve_user R interaction val guild =
     bind_result (resolved_lookup interaction ''users'' val) (\<lambda>ud.
     bind_result (User R ud) (\<lambda>user.
       if guild_truthy (i_guild_id interaction)
       then bind_result (resolved_lookup interaction ''members'' val) (\<lambda>md.
            bind_result (Member R md guild) (\<lambda>member. Inr (set_user R member user)))
       else Inr user))"

text \<open>The branches of the loop body of \<^verbatim>\<open>_process_options\<close> for the node types
  that bind a value (3, 4, 5, 10, 6, 7, 8, 9, 11); any other type binds nothing.\<close>

definition bind_leaf ::
  "'e runtime \<Rightarrow> 'e interaction \<Rightarrow> option_obj \<Rightarrow> int \<Rightarrow> pyval maybe \<Rightarrow> (string \<times> 'e bound) list
   \<Rightarrow> error + (string \<times> 'e bound) list" where
  "bind_leaf R interaction opt type val binding =
     (if type \<in> {3, 4, 5, 10} then bind_param opt (Raw val) binding
      else if type = 6 then
        bind_result (resolve_user R interaction val (guild_kwarg (i_guild_id interaction))) (\<lambda>u.
          bind_param opt (Obj u) binding)
      else if type = 7 then
        bind_result (resolved_lookup interaction ''channels'' val) (\<lambda>cd.
        bind_result (identify_channel (channel_init R) cd) (\<lambda>c. bind_param opt (Obj c) binding))
      else if type = 8 then
        bind_result (resolved_lookup interaction ''roles'' val) (\<lambda>rd.
        bind_result (Role R rd) (\<lambda>r. bind_param opt (Obj r) binding))
      else if type = 9 then
        bind_result (resolved interaction) (\<lambda>res.
        bind_result (py_get res ''roles'') (\<lambda>roles.
          if truthy roles
          then bind_result (resolved_lookup interaction ''roles'' val) (\<lambda>rd.
               bind_result (Role R rd) (\<lambda>r. bind_param opt (Obj r) binding))
          else bind_result (resolve_user R interaction val None) (\<lambda>u.
                 bind_param opt (Obj u) binding)))
      else if type = 11 then
        bind_result (resolved_lookup interaction ''attachments'' val) (\<lambda>ad.
        bind_result (Attachment R ad) (\<lambda>a. bind_param opt (Obj a) binding))
      else Inr binding)"

text \<open>
  The loop of \<^verbatim>\<open>_process_options\<close> over the nodes still to visit, with the
  \<^verbatim>\<open>binding\<close> built so far and the events so far. It returns the dictionary, or the
  exception that ended the run, and the events up to there.
\<close>

fun process_options_loop ::
  "'e runtime \<Rightarrow> application_command \<Rightarrow> 'e interaction \<Rightarrow> interaction_option list \<Rightarrow> bool
   \<Rightarrow> (string \<times> 'e bound) list \<Rightarrow> 'e event list
   \<Rightarrow> (error + (string \<times> 'e bound) list) \<times> 'e event list" where
  "process_options_loop R self interaction [] grouped binding tr = (Inr binding, tr)"
| "process_options_loop R self interaction (InteractionOption name type val opts # rest) grouped binding tr =
     (case dict_getitem (ac_options_dict self) (NStr name) of
        Inl e \<Rightarrow> (Inl e, tr)
      | Inr opt \<Rightarrow>
          if type = 1 then
            (case (case ac_subs self of None \<Rightarrow> Inl AttributeError
                   | Some ss \<Rightarrow> dict_getitem ss (NStr name)) of
               Inl e \<Rightarrow> (Inl e, tr)
             | Inr sub \<Rightarrow>
                 (case process_options_loop R self interaction opts False [] tr of
                    (Inl e, tr1) \<Rightarrow> (Inl e, tr1)
                  | (Inr kwargs, tr1) \<Rightarrow>
                      (case (if grouped then Inr tr1 else call (ac_callback self) [] [] tr1) of
                         Inl e \<Rightarrow> (Inl e, tr1)
                       | Inr tr2 \<Rightarrow>
                           (case call_attr (o_callback (attrs sub)) [] kwargs tr2 of
                              Inl e \<Rightarrow> (Inl e, tr2)
                            | Inr tr3 \<Rightarrow>
                                process_options_loop R self interaction rest grouped binding tr3))))
          else if type = 2 then
            (case call (ac_callback self) [] [] tr of
               Inl e \<Rightarrow> (Inl e, tr)
             | Inr tr1 \<Rightarrow>
                 (case process_options_loop R self interaction opts True [] tr1 of
                    (Inl e, tr2) \<Rightarrow> (Inl e, tr2)
                  | (Inr ignored, tr2) \<Rightarrow>
                      process_options_loop R self interaction rest grouped binding tr2))
          else
            (case bind_leaf R interaction opt type val binding of
               Inl e \<Rightarrow> (Inl e, tr)
             | Inr binding' \<Rightarrow> process_options_loop R self interaction rest grouped binding' tr))"

text \<open>\<^verbatim>\<open>ApplicationCommand._process_options(interaction, options, grouped)\<close>.\<close>

definition process_options ::
  "'e runtime \<Rightarrow> application_command \<Rightarrow> 'e interaction \<Rightarrow> interaction_option list \<Rightarrow> bool
   \<Rightarrow> (error + (string \<times> 'e bound) list) \<times> 'e event list" where
  "process_options R self interaction opts grouped = process_options_loop R self interaction opts grouped [] []"

section \<open>Registering a command (ApplicationCommand.instantiate)\<close>

text \<open>A registered command as the platform reports it: the keys \<^verbatim>\<open>id\<close>,
  \<^verbatim>\<open>name\<close> and \<^verbatim>\<open>type\<close> of an \<^verbatim>\<open>ApplicationCommandData\<close>, and its
  options.\<close>

record remote_command =
  rc_id :: int
  rc_name :: string
  rc_type :: int
  rc_options :: "pyval list"

text \<open>
  Modelled from the spec: the router methods \<^verbatim>\<open>get_guild_application_commands\<close>,
  \<^verbatim>\<open>delete_*_application_command\<close>, \<^verbatim>\<open>edit_*_application_command\<close> and
  \<^verbatim>\<open>create_*_application_command\<close> are missing from src, and the platform behind
  them is external. Following section 4.6 of the spec, the platform keeps the commands
  registered for each guild and the global ones; a fetch returns the guild's list; a
  delete removes the command with the given id; an edit updates it in place; a create
  registers a new command under a fresh id and returns it. A delete or an edit of an id
  that is not registered fails with \<^verbatim>\<open>HTTPException\<close>.
\<close>

record platform =
  pf_guild :: "int \<Rightarrow> remote_command list"
  pf_global :: "remote_command list"
  pf_next_id :: int

definition delete_from :: "remote_command list \<Rightarrow> int \<Rightarrow> error + remote_command list" where
  "delete_from cs i =
     (if i \<in> rc_id ` set cs then Inr (filter (\<lambda>c. rc_id c \<noteq> i) cs) else Inl HTTPException)"

definition edit_in :: "remote_command list \<Rightarrow> int \<Rightarrow> string \<Rightarrow> int \<Rightarrow> pyval list \<Rightarrow> error + remote_command list" where
  "edit_in cs i name type opts =
     (if i \<in> rc_id ` set cs
      then Inr (map (\<lambda>c. if rc_id c = i then c\<lparr>rc_name := name, rc_type := type, rc_options := opts\<rparr> else c) cs)
      else Inl HTTPException)"

definition get_guild_application_commands :: "platform \<Rightarrow> int \<Rightarrow> remote_command list" where
  "get_guild_application_commands P g = pf_guild P g"

definition delete_guild_application_command :: "platform \<Rightarrow> int \<Rightarrow> int \<Rightarrow> error + platform" where
  "delete_guild_application_command P g i =
     map_sum id (\<lambda>cs. P\<lparr>pf_guild := (pf_guild P)(g := cs)\<rparr>) (delete_from (pf_guild P g) i)"

definition edit_guild_application_command :: "platform \<Rightarrow> int \<Rightarrow> int \<Rightarrow> string \<Rightarrow> int \<Rightarrow> pyval list \<Rightarrow> error + platform" where
  "edit_guild_application_command P g i name type opts =
     map_sum id (\<lambda>cs. P\<lparr>pf_guild := (pf_guild P)(g := cs)\<rparr>) (edit_in (pf_guild P g) i name type opts)"

definition create_guild_application_command :: "platform \<Rightarrow> int \<Rightarrow> string \<Rightarrow> int \<Rightarrow> pyval list \<Rightarrow> platform \<times> remote_command" where
  "create_guild_application_command P g name type opts =
     (let res = \<lparr>rc_id = pf_next_id P, rc_name = name, rc_type = type, rc_options = opts\<rparr>
      in (P\<lparr>pf_guild := (pf_guild P)(g := pf_guild P g @ [res]), pf_next_id := pf_next_id P + 1\<rparr>, res))"

definition delete_global_application_command :: "platform \<Rightarrow> int \<Rightarrow> error + platform" where
  "delete_global_application_command P i =
     map_sum id (\<lambda>cs. P\<lparr>pf_global := cs\<rparr>) (delete_from (pf_global P) i)"

definition edit_global_application_command :: "platform \<Rightarrow> int \<Rightarrow> string \<Rightarrow> int \<Rightarrow> pyval list \<Rightarrow> error + platform" where
  "edit_global_application_command P i name type opts =
     map_sum id (\<lambda>cs. P\<lparr>pf_global := cs\<rparr>) (edit_in (pf_global P) i name type opts)"

definition create_global_application_command :: "platform \<Rightarrow> string \<Rightarrow> int \<Rightarrow> pyval list \<Rightarrow> platform \<times> remote_command" where
  "create_global_application_command P name type opts =
     (let res = \<lparr>rc_id = pf_next_id P, rc_name = name, rc_type = type, rc_options = opts\<rparr>
      in (P\<lparr>pf_global := pf_global P @ [res], pf_next_id := pf_next_id P + 1\<rparr>, res))"

text \<open>What \<^verbatim>\<open>instantiate\<close> reads of \<^verbatim>\<open>self._state\<close>: the names of the commands
  declared in this process, the update policy, and the cached list of global
  commands.\<close>

record state =
  application_command_names :: "string list"
  update_commands :: bool
  application_commands :: "remote_command list"

text \<open>The loop over the fetched commands of the guild \<open>g\<close>.\<close>

fun instantiate_guild_loop ::
  "state \<Rightarrow> int \<Rightarrow> remote_command list \<Rightarrow> platform \<Rightarrow> application_command
   \<Rightarrow> error option \<times> platform \<times> application_command" where
  "instantiate_guild_loop S g [] P self = (None, P, self)"
| "instantiate_guild_loop S g (app_cmd # rest) P self =
     (if rc_name app_cmd \<notin> set (application_command_names S) then
        (case delete_guild_application_command P g (rc_id app_cmd) of
           Inl e \<Rightarrow> (Some e, P, self)
         | Inr P' \<Rightarrow> instantiate_guild_loop S g rest P' self)
      else if rc_name app_cmd = ac_name self \<and> update_commands S then
        (if rc_type app_cmd \<noteq> ac_type self then instantiate_guild_loop S g rest P self
         else if ac_created self then
           (case delete_guild_application_command P g (rc_id app_cmd) of
              Inl e \<Rightarrow> (Some e, P, self)
            | Inr P' \<Rightarrow> instantiate_guild_loop S g rest P' self)
         else
           (let self1 = self\<lparr>ac_id := Given (PInt (rc_id app_cmd))\<rparr> in
            case edit_guild_application_command P g (rc_id app_cmd) (ac_name self1) (ac_type self1)
                   (ac_options_payload self1) of
              Inl e \<Rightarrow> (Some e, P, self1)
            | Inr P' \<Rightarrow> instantiate_guild_loop S g rest P' (self1\<lparr>ac_created := True\<rparr>)))
      else instantiate_guild_loop S g rest P self)"

text \<open>The loop over \<^verbatim>\<open>self._state.application_commands\<close> for a global command.\<close>

fun instantiate_global_loop ::
  "state \<Rightarrow> remote_command list \<Rightarrow> platform \<Rightarrow> application_command
   \<Rightarrow> error option \<times> platform \<times> application_command" where
  "instantiate_global_loop S [] P self = (None, P, self)"
| "instantiate_global_loop S (app_cmd # rest) P self =
     (if rc_name app_cmd = ac_name self \<and> update_commands S then
        (if rc_type app_cmd \<noteq> ac_type self then instantiate_global_loop S rest P self
         else
           (case (if ac_created self then delete_global_application_command P (rc_id app_cmd)
                  else Inr P) of
              Inl e \<Rightarrow> (Some e, P, self)
            | Inr P1 \<Rightarrow>
                (case edit_global_application_command P1 (rc_id app_cmd) (ac_name self) (ac_type self)
                        (ac_options_payload self) of
                   Inl e \<Rightarrow> (Some e, P1, self)
                 | Inr P2 \<Rightarrow>
                     instantiate_global_loop S rest P2
                       (self\<lparr>ac_created := True, ac_id := Given (PInt (rc_id app_cmd))\<rparr>))))
      else instantiate_global_loop S rest P self)"

text \<open>The two halves of \<^verbatim>\<open>instantiate\<close>: the body of \<^verbatim>\<open>if self.guild_id:\<close>
  for the guild \<open>g\<close>, and the code after it for a global command.\<close>

definition instantiate_guild :: "state \<Rightarrow> int \<Rightarrow> platform \<Rightarrow> application_command \<Rightarrow> error option \<times> platform \<times> application_command" where
  "instantiate_guild S g P self =
     (case instantiate_guild_loop S g (get_guild_application_commands P g) P self of
        (Some e, P1, self1) \<Rightarrow> (Some e, P1, self1)
      | (None, P1, self1) \<Rightarrow>
          if \<not> ac_created self1 then
            (let (P2, res) = create_guild_application_command P1 g (ac_name self1) (ac_type self1)
                               (ac_options_payload self1)
             in (None, P2, self1\<lparr>ac_id := Given (PInt (rc_id res))\<rparr>))
          else (None, P1, self1))"

definition instantiate_global :: "state \<Rightarrow> platform \<Rightarrow> application_command \<Rightarrow> error option \<times> platform \<times> application_command" where
  "instantiate_global S P self =
     (case instantiate_global_loop S (application_commands S) P self of
        (Some e, P1, self1) \<Rightarrow> (Some e, P1, self1)
      | (None, P1, self1) \<Rightarrow>
          if \<not> ac_created self1 then
            (let (P2, res) = create_global_application_command P1 (ac_name self1) (ac_type self1)
                               (ac_options_payload self1)
             in (None, P2, self1\<lparr>ac_id := Given (PInt (rc_id res))\<rparr>))
          else (None, P1, self1))"

text \<open>\<^verbatim>\<open>ApplicationCommand.instantiate\<close>: the exception raised, if any, the platform
  and the command afterwards. \<^verbatim>\<open>self.guild_id\<close> is true when it is an integer
  other than zero.\<close>

definition instantiate :: "state \<Rightarrow> platform \<Rightarrow> application_command \<Rightarrow> error option \<times> platform \<times> application_command" where
  "instantiate S P self =
     (case ac_guild_id self of
        None \<Rightarrow> instantiate_global S P self
      | Some g \<Rightarrow> if g \<noteq> 0 then instantiate_guild S g P self else instantiate_global S P self)"

text \<open>The remote commands of a guild that carry the name and type of a local command.\<close>

definition registered :: "platform \<Rightarrow> int \<Rightarrow> application_command \<Rightarrow> remote_command list" where
  "registered P g self =
     filter (\<lambda>c. rc_name c = ac_name self \<and> rc_type c = ac_type self) (pf_guild P g)"

section \<open>Nodes whose entity is not in the resolved maps\<close>








section \<open>Autocomplete and dispatch (_autocomplete, ApplicationCommand._invoke)\<close>

text \<open>\<^verbatim>\<open>str(v)\<close>: a string is itself, anything else prints as its \<^verbatim>\<open>repr\<close>.\<close>

fun py_str :: "(pyval \<Rightarrow> string) \<Rightarrow> pyval \<Rightarrow> string" where
  "py_str rp (PStr s) = s"
| "py_str rp v = rp v"

text \<open>The comprehension of \<^verbatim>\<open>_autocomplete\<close>: for each choice the condition
  \<^verbatim>\<open>string in str(choice.value).lower()\<close> is tested first (an
  \<^verbatim>\<open>AttributeError\<close> on a choice without \<^verbatim>\<open>value\<close>), then
  \<^verbatim>\<open>choice._to_dict()\<close> is taken. \<open>lw\<close> is \<^verbatim>\<open>str.lower\<close>.\<close>

fun autocomplete_choices :: "(string \<Rightarrow> string) \<Rightarrow> string \<Rightarrow> command_choice list \<Rightarrow> error + pyval list" where
  "autocomplete_choices lw string [] = Inr []"
| "autocomplete_choices lw string (choice # choices) =
     (case c_value choice of
        None \<Rightarrow> Inl AttributeError
      | Some v \<Rightarrow>
          if str_contains string (lw v)
          then bind_result (choice_to_dict choice) (\<lambda>d.
               bind_result (autocomplete_choices lw string choices) (\<lambda>ds. Inr (d # ds)))
          else autocomplete_choices lw string choices)"

text \<open>\<^verbatim>\<open>_autocomplete(_, option, string)\<close>, the default completer, given Python's
  \<^verbatim>\<open>repr\<close> and \<^verbatim>\<open>str.lower\<close>. \<^verbatim>\<open>option._choices\<close> exists only on an
  option built with a truthy \<^verbatim>\<open>autocomplete\<close>.\<close>

definition autocomplete ::
  "(pyval \<Rightarrow> string) \<Rightarrow> (string \<Rightarrow> string) \<Rightarrow> option_obj \<Rightarrow> pyval \<Rightarrow> error + pyval" where
  "autocomplete rp lw option string =
     (let string = lw (py_str rp string) in
      case o_private_choices (attrs option) of
        None \<Rightarrow> Inl AttributeError
      | Some choices \<Rightarrow> map_sum id PList (autocomplete_choices lw string choices))"

text \<open>\<^verbatim>\<open>await real_option.autocompleter(interaction, real_option, value)\<close>.\<close>

fun run_completer :: "'e runtime \<Rightarrow> completer \<Rightarrow> option_obj \<Rightarrow> pyval \<Rightarrow> error + pyval" where
  "run_completer R Default_autocomplete option v = autocomplete (repr R) (str_lower R) option v"
| "run_completer R (Custom n) option v = custom_completer R n option v"

text \<open>\<^verbatim>\<open>self._options_dict[k]\<close> for a key taken from the payload.\<close>

fun options_dict_getitem :: "(name_arg \<times> option_obj) list \<Rightarrow> pyval \<Rightarrow> error + option_obj" where
  "options_dict_getitem d (PStr s) = dict_getitem d (NStr s)"
| "options_dict_getitem d PNone = dict_getitem d NNone"
| "options_dict_getitem d (PList xs) = Inl TypeError"
| "options_dict_getitem d (PDict kvs) = Inl TypeError"
| "options_dict_getitem d v = Inl KeyError"

text \<open>\<^verbatim>\<open>interaction.data.get('name')\<close>; \<^verbatim>\<open>MISSING\<close> has no \<^verbatim>\<open>get\<close>.\<close>

definition data_get :: "'e interaction \<Rightarrow> string \<Rightarrow> error + pyval" where
  "data_get interaction k =
     (case i_data interaction of MISSING \<Rightarrow> Inl AttributeError | Given d \<Rightarrow> py_get d k)"

text \<open>\<^verbatim>\<open>interaction.data[k]\<close>.\<close>

definition data_getitem :: "'e interaction \<Rightarrow> string \<Rightarrow> error + pyval" where
  "data_getitem interaction k =
     (case i_data interaction of
        MISSING \<Rightarrow> Inl TypeError
      | Given d \<Rightarrow> getitem d (Given (PStr k)))"

text \<open>\<^verbatim>\<open>ApplicationCommand._process_user_command\<close>.\<close>

definition process_user_command :: "'e interaction \<Rightarrow> 'e bound" where
  "process_user_command interaction =
     (case i_member interaction of
        Given m \<Rightarrow> Obj m
      | MISSING \<Rightarrow> (case i_user interaction of Given u \<Rightarrow> Obj u | MISSING \<Rightarrow> Raw MISSING))"

text \<open>A step that may raise, followed by the rest of the run.\<close>

definition and_then ::
  "error + 'a \<Rightarrow> 'e event list \<Rightarrow> ('a \<Rightarrow> error option \<times> 'e event list) \<Rightarrow> error option \<times> 'e event list" where
  "and_then r tr f = (case r of Inl e \<Rightarrow> (Some e, tr) | Inr x \<Rightarrow> f x)"

text \<open>The branch \<^verbatim>\<open>interaction.type == 4\<close> of \<^verbatim>\<open>_invoke\<close>.\<close>

definition invoke_autocomplete :: "'e runtime \<Rightarrow> application_command \<Rightarrow> 'e interaction \<Rightarrow> error option \<times> 'e event list" where
  "invoke_autocomplete R self interaction =
     and_then (data_get interaction ''name'') [] (\<lambda>n.
       if n = PNone then (None, [])
       else and_then (data_getitem interaction ''name'') [] (\<lambda>n'.
         if n' \<noteq> PStr (ac_name self) then (None, [])
         else
           and_then (data_getitem interaction ''options'') [] (\<lambda>os.
           and_then (getitem os (Given (PInt 0))) [] (\<lambda>option.
           and_then (getitem option (Given (PStr ''name''))) [] (\<lambda>k.
           and_then (options_dict_getitem (ac_options_dict self) k) [] (\<lambda>real_option.
           and_then (getitem option (Given (PStr ''value''))) [] (\<lambda>v.
           and_then (run_completer R (o_autocompleter (attrs real_option)) real_option v)
             [Completer_called (o_autocompleter (attrs real_option)) real_option v] (\<lambda>choices.
             (response_autocomplete R choices,
              [Completer_called (o_autocompleter (attrs real_option)) real_option v,
               Autocomplete_sent choices])))))))))"

text \<open>The rest of \<^verbatim>\<open>_invoke\<close>, for an interaction that is not an autocomplete
  request.\<close>

definition invoke_command :: "'e runtime \<Rightarrow> application_command \<Rightarrow> 'e interaction \<Rightarrow> error option \<times> 'e event list" where
  "invoke_command R self interaction =
     (if \<not> truthy_maybe (i_data interaction) then (None, [])
      else
        and_then (data_get interaction ''name'') [] (\<lambda>n.
          if n = PNone then (None, [])
          else and_then (data_getitem interaction ''name'') [] (\<lambda>n'.
            if n' \<noteq> PStr (ac_name self) then (None, [])
            else and_then (data_getitem interaction ''type'') [] (\<lambda>t.
              if py_eq_int t 1 then
                (case process_options R self interaction (i_options interaction) False of
                   (Inl e, tr) \<Rightarrow> (Some e, tr)
                 | (Inr binding, tr) \<Rightarrow>
                     (case ac_callback self of
                        None \<Rightarrow> (None, tr)
                      | Some f \<Rightarrow> (None, tr @ [Called f [] binding])))
              else if py_eq_int t 2 then
                and_then (call (ac_callback self) [process_user_command interaction] [] []) []
                  (\<lambda>tr. (None, tr))
              else if py_eq_int t 3 then
                and_then (resolved interaction) [] (\<lambda>res.
                and_then (getitem res (Given (PStr ''messages''))) [] (\<lambda>messages.
                and_then (data_getitem interaction ''target_id'') [] (\<lambda>target.
                and_then (getitem messages (Given target)) [] (\<lambda>md.
                and_then (Message R md) [] (\<lambda>message.
                and_then (call (ac_callback self)
                            [Obj message, process_user_command interaction] [] []) []
                  (\<lambda>tr. (None, tr)))))))
              else (None, [])))))"

text \<open>\<^verbatim>\<open>ApplicationCommand._invoke\<close> on an interaction: the exception raised, if
  any, and the events.\<close>

definition invoke :: "'e runtime \<Rightarrow> application_command \<Rightarrow> 'e interaction \<Rightarrow> error option \<times> 'e event list" where
  "invoke R self interaction =
     (if i_type interaction = 4 then invoke_autocomplete R self interaction
      else invoke_command R self interaction)"

section \<open>Channel permission overwrites (api/routers/channels.py)\<close>

text \<open>\<^verbatim>\<open>str(x)\<close> for an argument that may be \<^verbatim>\<open>MISSING\<close>; \<open>ms\<close> is the string
  that \<^verbatim>\<open>str(MISSING)\<close> gives (the enum is in missing.py, outside src).\<close>

fun str_maybe :: "(pyval \<Rightarrow> string) \<Rightarrow> string \<Rightarrow> pyval maybe \<Rightarrow> string" where
  "str_maybe rp ms MISSING = ms"
| "str_maybe rp ms (Given v) = py_str rp v"

text \<open>
  \<^verbatim>\<open>edit_channel_permissions(channel_id, overwrite_id, type=, allow=, deny=)\<close>: the
  body \<^verbatim>\<open>remove_undefined(**data)\<close> that it hands to \<^verbatim>\<open>self.request\<close> with
  the method \<^verbatim>\<open>PUT\<close>, where \<^verbatim>\<open>data\<close> is
  \<^verbatim>\<open>{'allow': str(allow), 'deny': str(deny), 'type': type}\<close>.
\<close>

definition edit_channel_permissions ::
  "(pyval \<Rightarrow> string) \<Rightarrow> string \<Rightarrow> pyval maybe \<Rightarrow> pyval maybe \<Rightarrow> pyval maybe \<Rightarrow> (string \<times> pyval) list" where
  "edit_channel_permissions rp ms type allow deny =
     remove_undefined
       [(''allow'', Given (PStr (str_maybe rp ms allow))),
        (''deny'', Given (PStr (str_maybe rp ms deny))),
        (''type'', type)]"

section \<open>Sample declarations\<close>

text \<open>Callbacks and a command \<^verbatim>\<open>/top grp sub\<close> declared through the two
  \<^verbatim>\<open>command\<close> decorators, then an option with autocomplete.\<close>

definition top_fn :: func where
  "top_fn = \<lparr>fn_name = ''top'', fn_doc = None\<rparr>"

definition grp_fn :: func where
  "grp_fn = \<lparr>fn_name = ''grp'', fn_doc = None\<rparr>"

definition sub_fn :: func where
  "sub_fn = \<lparr>fn_name = ''sub'', fn_doc = Some ''A sub-command''\<rparr>"

definition deep_fn :: func where
  "deep_fn = \<lparr>fn_name = ''deep'', fn_doc = None\<rparr>"

definition top_command :: application_command where
  "top_command = plain_command ''top'' top_fn None"

definition color_args :: option_args where
  "color_args =
     default_args
       \<lparr>a_name := Some ''color'',
        a_autocomplete := Given (PBool True),
        a_choices := Given [CommandChoice ''Red'' PNone PNone, CommandChoice ''Green'' PNone PNone]\<rparr>"

text \<open>An integer option \<^verbatim>\<open>Option(name='count', type=int, min_value=None, max_value=10)\<close>
  and the object its constructor builds.\<close>

definition count_args :: option_args where
  "count_args =
     default_args
       \<lparr>a_name := Some ''count'', a_type := PyType Int_t,
        a_min_value := Given PNone, a_max_value := Given (PInt 10)\<rparr>"

definition count_option :: option_obj where
  "count_option =
     Option
       \<lparr>o_type = 4, o_autocompleter = Default_autocomplete,
        o_name = Some ''count'', o_name_localizations = MISSING,
        o_description = ''No description provided'',
        o_description_localizations = MISSING,
        o_required = MISSING, o_choices = MISSING, o_private_choices = None,
        o_channel_types = MISSING, o_min_value = Given PNone, o_max_value = Given (PInt 10),
        o_autocomplete = MISSING, o_level = 0, o_callback = Unset, o_param = None\<rparr> [] []"

text \<open>A command \<^verbatim>\<open>/top\<close> scoped to guild 42, a process that declares it with the
  update policy on, and a platform on which guild 42 already has it registered under
  id 7, as a previous run of the bot left it.\<close>

definition guild_command :: application_command where
  "guild_command = plain_command ''top'' top_fn (Some 42)"

definition bot_state :: state where
  "bot_state = \<lparr>application_command_names = [''top''], update_commands = True,
                 application_commands = []\<rparr>"

definition registered_platform :: platform where
  "registered_platform =
     \<lparr>pf_guild = (\<lambda>g. if g = 42
                        then [\<lparr>rc_id = 7, rc_name = ''top'', rc_type = 1, rc_options = []\<rparr>]
                        else []),
      pf_global = [], pf_next_id = 8\<rparr>"

text \<open>Entity objects seen from outside: the class and the payload an object was built
  from, and for a member the guild keyword and the user assigned to it. These
  constructors never raise, the text in the samples is ASCII, where \<^verbatim>\<open>str.lower\<close>
  is \<open>lower\<close>, and the response takes the choices without raising.\<close>

datatype entity =
    UserE pyval
  | MemberE pyval "int option" "entity option"
  | RoleE pyval
  | AttachmentE pyval
  | MessageE pyval
  | ChannelE channel_class pyval

fun assign_user :: "entity \<Rightarrow> entity \<Rightarrow> entity" where
  "assign_user (MemberE d g u) user = MemberE d g (Some user)"
| "assign_user e user = e"

definition plain_runtime :: "entity runtime" where
  "plain_runtime =
     \<lparr>User = (\<lambda>d. Inr (UserE d)),
      Member = (\<lambda>d g. Inr (MemberE d g None)),
      set_user = assign_user,
      Role = (\<lambda>d. Inr (RoleE d)),
      Attachment = (\<lambda>d. Inr (AttachmentE d)),
      Message = (\<lambda>d. Inr (MessageE d)),
      channel_init = (\<lambda>c d. Inr (ChannelE c d)),
      repr = (\<lambda>v. []),
      str_lower = lower,
      custom_completer = (\<lambda>n option v. Inr (PList [])),
      response_autocomplete = (\<lambda>choices. None)\<rparr>"

text \<open>The interaction \<^verbatim>\<open>/top grp sub a:x b:5\<close>: one group node holding one
  sub-command node holding two scalar leaves.\<close>

definition grp_nodes :: "interaction_option list" where
  "grp_nodes =
     [InteractionOption ''grp'' 2 MISSING
        [InteractionOption ''sub'' 1 MISSING
           [InteractionOption ''a'' 3 (Given (PStr ''x'')) [],
            InteractionOption ''b'' 4 (Given (PInt 5)) []]]]"

definition grp_interaction :: "entity interaction" where
  "grp_interaction =
     \<lparr>i_type = 2,
      i_data = Given (PDict [(''name'', PStr ''top''), (''type'', PInt 1)]),
      i_guild_id = MISSING, i_options = grp_nodes, i_member = MISSING, i_user = MISSING\<rparr>"

text \<open>
  A command \<^verbatim>\<open>/who target\<close> with one declared option, as
  \<^verbatim>\<open>_parse_arguments\<close> leaves it: the option carries the parameter name in
  \<^verbatim>\<open>_param\<close> and is registered under its name. Then interactions that carry a
  node for it, with \<^verbatim>\<open>resolved\<close> maps for the id 5.
\<close>

definition who_fn :: func where
  "who_fn = \<lparr>fn_name = ''who'', fn_doc = None\<rparr>"

definition target_option :: option_obj where
  "target_option =
     Option
       \<lparr>o_type = 6, o_autocompleter = Default_autocomplete,
        o_name = Some ''target'', o_name_localizations = MISSING,
        o_description = ''No description provided'',
        o_description_localizations = MISSING,
        o_required = MISSING, o_choices = MISSING, o_private_choices = None,
        o_channel_types = MISSING, o_min_value = MISSING, o_max_value = MISSING,
        o_autocomplete = MISSING, o_level = 0, o_callback = Unset,
        o_param = Some ''target''\<rparr> [] []"

definition who_command :: application_command where
  "who_command =
     (plain_command ''who'' who_fn None)
       \<lparr>ac_options := [target_option],
        ac_options_dict := [(NStr ''target'', target_option)],
        ac_options_payload := [PDict (to_dict target_option)]\<rparr>"

definition role_payload :: pyval where
  "role_payload = PDict [(''id'', PStr ''5''), (''name'', PStr ''mods'')]"

definition user_payload :: pyval where
  "user_payload = PDict [(''id'', PStr ''5''), (''username'', PStr ''ann'')]"

definition member_payload :: pyval where
  "member_payload = PDict [(''nick'', PStr ''annie'')]"

definition target_node :: "int \<Rightarrow> interaction_option" where
  "target_node type = InteractionOption ''target'' type (Given (PStr ''5'')) []"

definition who_interaction :: "(string \<times> pyval) list \<Rightarrow> int maybe \<Rightarrow> entity interaction" where
  "who_interaction resolved_maps guild =
     \<lparr>i_type = 2,
      i_data = Given (PDict [(''name'', PStr ''who''), (''type'', PInt 1),
                             (''resolved'', PDict resolved_maps)]),
      i_guild_id = guild, i_options = [], i_member = MISSING, i_user = MISSING\<rparr>"

text \<open>
  A command \<^verbatim>\<open>/pick letter size\<close>: \<^verbatim>\<open>letter\<close> completes with the default
  completer over 26 choices, \<^verbatim>\<open>size\<close> with a completer of the caller's. Then an
  autocomplete request in which the user has filled \<^verbatim>\<open>letter\<close> and is typing
  \<^verbatim>\<open>size\<close>, the focused node.
\<close>

definition pick_fn :: func where
  "pick_fn = \<lparr>fn_name = ''pick'', fn_doc = None\<rparr>"

definition letter_choices :: "command_choice list" where
  "letter_choices = map (\<lambda>c. CommandChoice [c] PNone PNone) ''abcdefghijklmnopqrstuvwxyz''"

definition letter_option :: option_obj where
  "letter_option =
     Option
       \<lparr>o_type = 3, o_autocompleter = Default_autocomplete,
        o_name = Some ''letter'', o_name_localizations = MISSING,
        o_description = ''No description provided'',
        o_description_localizations = MISSING,
        o_required = MISSING, o_choices = Given (PList []),
        o_private_choices = Some letter_choices,
        o_channel_types = MISSING, o_min_value = MISSING, o_max_value = MISSING,
        o_autocomplete = Given (PBool True), o_level = 0, o_callback = Unset,
        o_param = Some ''letter''\<rparr> [] []"

definition size_option :: option_obj where
  "size_option =
     Option
       \<lparr>o_type = 3, o_autocompleter = Custom ''sizes'',
        o_name = Some ''size'', o_name_localizations = MISSING,
        o_description = ''No description provided'',
        o_description_localizations = MISSING,
        o_required = MISSING, o_choices = Given (PList []),
        o_private_choices = Some [],
        o_channel_types = MISSING, o_min_value = MISSING, o_max_value = MISSING,
        o_autocomplete = Given (PBool True), o_level = 0, o_callback = Unset,
        o_param = Some ''size''\<rparr> [] []"

definition pick_command :: application_command where
  "pick_command =
     (plain_command ''pick'' pick_fn None)
       \<lparr>ac_options := [letter_option, size_option],
        ac_options_dict := [(NStr ''letter'', letter_option), (NStr ''size'', size_option)],
        ac_options_payload := [PDict (to_dict letter_option), PDict (to_dict size_option)]\<rparr>"

definition letter_node :: pyval where
  "letter_node = PDict [(''name'', PStr ''letter''), (''type'', PInt 3), (''value'', PStr '''')]"

definition size_node :: pyval where
  "size_node = PDict [(''name'', PStr ''size''), (''type'', PInt 3), (''value'', PStr ''x''),
                      (''focused'', PBool True)]"

definition pick_interaction :: "pyval list \<Rightarrow> entity interaction" where
  "pick_interaction nodes =
     \<lparr>i_type = 4,
      i_data = Given (PDict [(''name'', PStr ''pick''), (''type'', PInt 1),
                             (''options'', PList nodes)]),
      i_guild_id = MISSING, i_options = [], i_member = MISSING, i_user = MISSING\<rparr>"

text \<open>The dictionary \<^verbatim>\<open>_to_dict\<close> gives for a choice whose \<^verbatim>\<open>value\<close> is its
  name.\<close>

definition choice_dict :: "command_choice \<Rightarrow> pyval" where
  "choice_dict c =
     PDict [(''name'', PStr (c_name c)), (''value'', PStr (c_name c)),
            (''name_localizations'', c_name_localizations c)]"

text \<open>The platform takes at most 25 choices in an autocomplete response; the source
  has no such bound.\<close>

definition max_choices :: nat where
  "max_choices = 25"

text \<open>A request in which the focused node comes first: the user is typing \<^verbatim>\<open>B\<close>
  into \<^verbatim>\<open>letter\<close>.\<close>

definition typing_node :: pyval where
  "typing_node = PDict [(''name'', PStr ''letter''), (''type'', PInt 3), (''value'', PStr ''B''),
                        (''focused'', PBool True)]"

text \<open>A second role, with another id; the command \<^verbatim>\<open>/top\<close> once the group
  \<^verbatim>\<open>grp\<close> is attached to it; and a node for an option that no command declares.\<close>

definition other_role_payload :: pyval where
  "other_role_payload = PDict [(''id'', PStr ''7''), (''name'', PStr ''staff'')]"



section \<open>Verified properties\<close>

subsection \<open>InteractionResponse.send\<close>

lemma send_when_responded:
  "responded self \<Longrightarrow> send http self a = (Some InteractionException, self)"
  by (simp add: send_def)

lemma send_success_sets_responded:
  "fst (send http self a) = None \<Longrightarrow> responded (snd (send http self a))"
  by (auto simp: send_def Let_def split: if_splits option.splits)

lemma sends_when_responded:
  "responded self \<Longrightarrow>
   sends http self as = (replicate (length as) (Some InteractionException), self)"
  by (induction as) (simp_all add: send_when_responded)

lemma sends_successes_bounded:
  "length (filter (\<lambda>r. r = None) (fst (sends http self as))) \<le> (if responded self then 0 else 1)"
proof (induction as arbitrary: self)
  case Nil
  show ?case by simp
next
  case (Cons a as)
  show ?case
  proof (cases "responded self")
    case True
    then show ?thesis by (simp add: sends_when_responded del: sends.simps)
  next
    case False
    obtain r self' where s: "send http self a = (r, self')" by (cases "send http self a")
    obtain rs self'' where ss: "sends http self' as = (rs, self'')" by (cases "sends http self' as")
    have ih: "length (filter (\<lambda>r. r = None) rs) \<le> (if responded self' then 0 else 1)"
      using Cons.IH [of self'] ss by simp
    show ?thesis
    proof (cases r)
      case None
      then have "responded self'" using send_success_sets_responded [of http self a] s by simp
      with ih None s ss False show ?thesis by simp
    next
      case (Some e)
      with ih s ss False show ?thesis by (simp split: if_splits)
    qed
  qed
qed

text \<open>
  C9. On every \<^verbatim>\<open>InteractionResponse\<close>: a \<^verbatim>\<open>send\<close> on an object whose
  \<^verbatim>\<open>responded\<close> is already true raises \<^verbatim>\<open>InteractionException\<close> and leaves the
  object, with its list of issued HTTP requests, as it was; a \<^verbatim>\<open>send\<close> that returns
  normally leaves \<^verbatim>\<open>responded\<close> true; once \<^verbatim>\<open>responded\<close> is true every later
  \<^verbatim>\<open>send\<close> raises and issues nothing; and of any sequence of sends on a freshly
  constructed object at most one returns normally.
\<close>

theorem send_at_most_once:
  "(responded self \<longrightarrow> send http self a = (Some InteractionException, self)) \<and>
   (fst (send http self a) = None \<longrightarrow> responded (snd (send http self a))) \<and>
   (responded self \<longrightarrow>
      sends http self as = (replicate (length as) (Some InteractionException), self)) \<and>
   length (filter (\<lambda>r. r = None) (fst (sends http (new_response pid ptoken) as))) \<le> 1"
proof -
  have "length (filter (\<lambda>r. r = None) (fst (sends http (new_response pid ptoken) as)))
        \<le> (if responded (new_response pid ptoken) then 0 else 1)"
    by (rule sends_successes_bounded)
  then have "length (filter (\<lambda>r. r = None) (fst (sends http (new_response pid ptoken) as))) \<le> 1"
    by (simp add: new_response_def)
  then show ?thesis
    using send_when_responded send_success_sets_responded sends_when_responded by blast
qed

theorem send_at_most_once_witness:
  "responded (snd (send (\<lambda>h r. None) (new_response (PInt 1) (PStr ''t'')) hello_args)) \<and>
   fst (send (\<lambda>h r. None) (new_response (PInt 1) (PStr ''t'')) hello_args) = None \<and>
   send (\<lambda>h r. None) (snd (send (\<lambda>h r. None) (new_response (PInt 1) (PStr ''t'')) hello_args)) hello_args
     = (Some InteractionException,
        snd (send (\<lambda>h r. None) (new_response (PInt 1) (PStr ''t'')) hello_args)) \<and>
   fst (sends (\<lambda>h r. None) (new_response (PInt 1) (PStr ''t'')) [hello_args, hello_args])
     = [None, Some InteractionException]"
  using send_at_most_once [of "snd (send (\<lambda>h r. None) (new_response (PInt 1) (PStr ''t'')) hello_args)"
      "\<lambda>h r. None" hello_args "[hello_args]" "PInt 1" "PStr ''t''"]
    send_at_most_once [of "new_response (PInt 1) (PStr ''t'')"
      "\<lambda>h r. None" hello_args "[hello_args]" "PInt 1" "PStr ''t''"]
  by (simp add: send_def new_response_def Let_def)

subsection \<open>identify_channel\<close>

text \<open>Every class but \<^verbatim>\<open>GroupDMChannel\<close> is returned for the codes of its comment.\<close>

lemma identify_channel_commented:
  "getitem data (Given (PStr ''type'')) = Inr (PInt n) \<Longrightarrow> n \<in> set (type_comment cls) \<Longrightarrow>
   cls \<noteq> GroupDMChannel \<Longrightarrow> identify_channel init data = init cls data"
  by (cases cls) (auto simp: identify_channel_def)

text \<open>An integer code outside 0..15 gives the base class.\<close>

lemma identify_channel_undefined_code:
  "getitem data (Given (PStr ''type'')) = Inr (PInt n) \<Longrightarrow> n < 0 \<or> 15 < n \<Longrightarrow>
   identify_channel init data = init Channel data"
  by (auto simp: identify_channel_def)

text \<open>
  C1 (the code departs from the claim). The claim asks that a payload of type 3 gives a
  \<^verbatim>\<open>GroupDMChannel\<close>, the class whose comment in channel.py is \<^verbatim>\<open># Type 3\<close>.
  \<^verbatim>\<open>identify_channel\<close> has no branch for 3: on every payload whose
  \<^verbatim>\<open>type\<close> is 3 it returns what the base class \<^verbatim>\<open>Channel\<close> constructs.
\<close>

theorem identify_channel_group_dm:
  "getitem data (Given (PStr ''type'')) = Inr (PInt 3) \<Longrightarrow> identify_channel init data = init Channel data"
  by (simp add: identify_channel_def)

theorem identify_channel_group_dm_witness:
  "getitem group_dm_payload (Given (PStr ''type'')) = Inr (PInt 3) \<and>
   3 \<in> set (type_comment GroupDMChannel) \<and>
   identify_channel instance_of group_dm_payload = Inr (Channel, group_dm_payload) \<and>
   identify_channel instance_of group_dm_payload \<noteq> instance_of GroupDMChannel group_dm_payload"
  using identify_channel_group_dm [of group_dm_payload instance_of]
  by (simp add: dict_getitem_def group_dm_payload_def instance_of_def)

subsection \<open>Declaring sub-commands\<close>

lemma Option_init_sub_command:
  "Option_init (sub_command_args n d nl dl f) =
     Inr (Option
       \<lparr>o_type = 1, o_autocompleter = Default_autocomplete,
        o_name = Some (name_or n (lower (fn_name f))),
        o_name_localizations = nl,
        o_description = or_default (Some (description_or d (fn_doc f))) ''No description provided'',
        o_description_localizations = dl,
        o_required = MISSING, o_choices = MISSING, o_private_choices = None,
        o_channel_types = MISSING, o_min_value = MISSING, o_max_value = MISSING,
        o_autocomplete = MISSING, o_level = 0, o_callback = Unset, o_param = None\<rparr> [] [])"
  by (simp add: Option_init_def sub_command_args_def default_args_def)

lemma Option_command_level_2:
  "o_level (attrs self) = 2 \<Longrightarrow> Option_command self n d nl dl f = Inl ApplicationCommandException"
  by (simp add: Option_command_def Option_init_sub_command)

lemma Option_command_below_2:
  "o_level (attrs self) \<noteq> 2 \<Longrightarrow>
   \<exists>self' sub. Option_command self n d nl dl f = Inr (self', sub) \<and>
      o_level (attrs sub) = o_level (attrs self) + 1 \<and> o_callback (attrs sub) = Fn f"
  by (simp add: Option_command_def Option_init_sub_command Let_def)

lemma Option_command_makes_group:
  "o_level (attrs self) \<noteq> 2 \<Longrightarrow> o_type (attrs self) = 1 \<Longrightarrow>
   \<exists>self' sub. Option_command self n d nl dl f = Inr (self', sub) \<and>
      o_type (attrs self') = 2 \<and> o_callback (attrs sub) = Fn f"
  by (simp add: Option_command_def Option_init_sub_command Let_def)

lemma ApplicationCommand_command_sub:
  "ac_type cmd = 1 \<Longrightarrow> ac_subs cmd = Some ss \<Longrightarrow>
   \<exists>cmd' sub. ApplicationCommand_command cmd n d nl dl f = Inr (cmd', sub) \<and>
      o_level (attrs sub) = 1 \<and> o_type (attrs sub) = 1"
  by (simp add: ApplicationCommand_command_def Option_init_sub_command Let_def)

lemma ApplicationCommand_command_ok:
  "ac_type cmd = 1 \<Longrightarrow> ac_subs cmd = Some ss \<Longrightarrow>
   \<exists>cmd' sub. ApplicationCommand_command cmd n d nl dl f = Inr (cmd', sub) \<and>
      o_level (attrs sub) = 1 \<and> o_callback (attrs sub) = Fn f \<and>
      ac_callback cmd' = (if ss = [] then None else ac_callback cmd)"
  by (simp add: ApplicationCommand_command_def Option_init_sub_command Let_def)

text \<open>
  C4. Calling \<^verbatim>\<open>.command\<close> on an option whose \<^verbatim>\<open>_level\<close> is 2 raises
  \<^verbatim>\<open>ApplicationCommandException\<close> (the spec's DeclarationError) when the decorator
  is applied. On a chat-input command (type 1, which has \<^verbatim>\<open>_subs\<close>), attaching a
  sub-command succeeds and gives an option of level 1; attaching a sub-command to that
  one succeeds and gives an option of level 2; attaching a third level to the latter
  raises.
\<close>

theorem nesting_depth:
  "(o_level (attrs self) = 2 \<longrightarrow>
      Option_command self n d nl dl f = Inl ApplicationCommandException) \<and>
   (ac_type cmd = 1 \<and> ac_subs cmd \<noteq> None \<longrightarrow>
      (\<exists>cmd' grp. ApplicationCommand_command cmd n1 d1 nl1 dl1 f1 = Inr (cmd', grp) \<and>
         o_level (attrs grp) = 1 \<and>
         (\<exists>grp' sub. Option_command grp n2 d2 nl2 dl2 f2 = Inr (grp', sub) \<and>
            o_level (attrs sub) = 2 \<and>
            Option_command sub n3 d3 nl3 dl3 f3 = Inl ApplicationCommandException)))"
proof (intro conjI impI)
  assume "o_level (attrs self) = 2"
  then show "Option_command self n d nl dl f = Inl ApplicationCommandException"
    by (rule Option_command_level_2)
next
  assume a: "ac_type cmd = 1 \<and> ac_subs cmd \<noteq> None"
  then obtain ss where ss: "ac_subs cmd = Some ss" by auto
  from a ss obtain cmd' grp where
    g: "ApplicationCommand_command cmd n1 d1 nl1 dl1 f1 = Inr (cmd', grp)"
       "o_level (attrs grp) = 1"
    using ApplicationCommand_command_ok [of cmd ss n1 d1 nl1 dl1 f1] by auto
  from g(2) obtain grp' sub where
    s: "Option_command grp n2 d2 nl2 dl2 f2 = Inr (grp', sub)" "o_level (attrs sub) = 2"
    using Option_command_below_2 [of grp n2 d2 nl2 dl2 f2] by auto
  from s(2) have "Option_command sub n3 d3 nl3 dl3 f3 = Inl ApplicationCommandException"
    by (rule Option_command_level_2)
  with g s show "\<exists>cmd' grp. ApplicationCommand_command cmd n1 d1 nl1 dl1 f1 = Inr (cmd', grp) \<and>
         o_level (attrs grp) = 1 \<and>
         (\<exists>grp' sub. Option_command grp n2 d2 nl2 dl2 f2 = Inr (grp', sub) \<and>
            o_level (attrs sub) = 2 \<and>
            Option_command sub n3 d3 nl3 dl3 f3 = Inl ApplicationCommandException)"
    by blast
qed

theorem nesting_depth_witness:
  "ac_type top_command = 1 \<and> ac_subs top_command \<noteq> None \<and>
   (case ApplicationCommand_command top_command (NStr ''grp'') NMissing MISSING MISSING grp_fn of
      Inl e \<Rightarrow> False
    | Inr (cmd', grp) \<Rightarrow>
        o_level (attrs grp) = 1 \<and>
        (case Option_command grp (NStr ''sub'') NNone MISSING MISSING sub_fn of
           Inl e \<Rightarrow> False
         | Inr (grp', sub) \<Rightarrow>
             o_level (attrs sub) = 2 \<and>
             Option_command sub (NStr ''deep'') NNone MISSING MISSING deep_fn
               = Inl ApplicationCommandException))"
proof -
  have h: "ac_type top_command = 1 \<and> ac_subs top_command \<noteq> None"
    by (simp add: top_command_def plain_command_def)
  from nesting_depth [of undefined undefined undefined undefined undefined undefined
      top_command "NStr ''grp''" NMissing MISSING MISSING grp_fn
      "NStr ''sub''" NNone MISSING MISSING sub_fn
      "NStr ''deep''" NNone MISSING MISSING deep_fn] h
  obtain cmd' grp grp' sub where
    "ApplicationCommand_command top_command (NStr ''grp'') NMissing MISSING MISSING grp_fn
       = Inr (cmd', grp)"
    "o_level (attrs grp) = 1"
    "Option_command grp (NStr ''sub'') NNone MISSING MISSING sub_fn = Inr (grp', sub)"
    "o_level (attrs sub) = 2"
    "Option_command sub (NStr ''deep'') NNone MISSING MISSING deep_fn
       = Inl ApplicationCommandException"
    by blast
  with h show ?thesis by simp
qed

subsection \<open>Serialisers and the three states of a field\<close>

lemma keys_remove_undefined: "fst ` set (remove_undefined kw) \<subseteq> fst ` set kw"
  by (induction kw rule: remove_undefined.induct) auto

lemma set_remove_undefined: "set (remove_undefined kw) = {(k, v). (k, Given v) \<in> set kw}"
  by (induction kw rule: remove_undefined.induct) auto

lemma map_of_remove_undefined:
  "distinct (map fst kw) \<Longrightarrow>
   map_of (remove_undefined kw) k =
     (case map_of kw k of None \<Rightarrow> None | Some MISSING \<Rightarrow> None | Some (Given v) \<Rightarrow> Some v)"
proof (induction kw rule: remove_undefined.induct)
  case 1
  show ?case by simp
next
  case (2 k' kwargs)
  have "k' \<notin> fst ` set (remove_undefined kwargs)"
    using 2(2) keys_remove_undefined [of kwargs] by auto
  then have "map_of (remove_undefined kwargs) k' = None"
    by (simp add: map_of_eq_None_iff)
  moreover have "map_of kwargs k' = None"
    using 2(2) by (simp add: map_of_eq_None_iff)
  ultimately show ?case using 2 by simp
next
  case (3 k' v kwargs)
  then show ?case by simp
qed

lemma distinct_to_dict_kwargs: "distinct (map fst (to_dict_kwargs f sub_dicts))"
  by (simp add: to_dict_kwargs_def)

lemma to_dict_eq:
  "to_dict opt =
     remove_undefined (to_dict_kwargs (attrs opt) (map (\<lambda>option. PDict (to_dict option)) (options opt)))"
  by (cases opt) simp

lemma map_of_to_dict:
  "map_of (to_dict opt) k =
     (case map_of (to_dict_kwargs (attrs opt) (map (\<lambda>option. PDict (to_dict option)) (options opt))) k of
        None \<Rightarrow> None | Some MISSING \<Rightarrow> None | Some (Given v) \<Rightarrow> Some v)"
  unfolding to_dict_eq [of opt]
  by (rule map_of_remove_undefined) (rule distinct_to_dict_kwargs)

text \<open>\<^verbatim>\<open>Option.to_dict\<close> keeps to the rule for each attribute of the option that may
  be \<^verbatim>\<open>MISSING\<close>: the key is absent when the attribute is \<^verbatim>\<open>MISSING\<close>, and
  carries the attribute's value, \<^verbatim>\<open>None\<close> included, otherwise.\<close>

lemma to_dict_fields:
  "map_of (to_dict opt) ''name_localizations''
     = (case o_name_localizations (attrs opt) of MISSING \<Rightarrow> None | Given v \<Rightarrow> Some v)"
  "map_of (to_dict opt) ''description_localizations''
     = (case o_description_localizations (attrs opt) of MISSING \<Rightarrow> None | Given v \<Rightarrow> Some v)"
  "map_of (to_dict opt) ''required''
     = (case o_required (attrs opt) of MISSING \<Rightarrow> None | Given v \<Rightarrow> Some v)"
  "map_of (to_dict opt) ''choices''
     = (case o_choices (attrs opt) of MISSING \<Rightarrow> None | Given v \<Rightarrow> Some v)"
  "map_of (to_dict opt) ''channel_types''
     = (case o_channel_types (attrs opt) of MISSING \<Rightarrow> None | Given v \<Rightarrow> Some v)"
  "map_of (to_dict opt) ''min_value''
     = (case o_min_value (attrs opt) of MISSING \<Rightarrow> None | Given v \<Rightarrow> Some v)"
  "map_of (to_dict opt) ''max_value''
     = (case o_max_value (attrs opt) of MISSING \<Rightarrow> None | Given v \<Rightarrow> Some v)"
  "map_of (to_dict opt) ''autocomplete''
     = (case o_autocomplete (attrs opt) of MISSING \<Rightarrow> None | Given v \<Rightarrow> Some v)"
  by (simp_all add: map_of_to_dict to_dict_kwargs_def split: maybe.splits)

lemma to_dict_count_option:
  "to_dict count_option =
     [(''type'', PInt 4), (''name'', PStr ''count''),
      (''description'', PStr ''No description provided''), (''options'', PList []),
      (''min_value'', PNone), (''max_value'', PInt 10)]"
  by (simp add: to_dict_kwargs_def count_option_def)

text \<open>
  C6 (the code departs from the claim). \<^verbatim>\<open>edit_channel_permissions\<close> builds its
  body from \<^verbatim>\<open>str(allow)\<close> and \<^verbatim>\<open>str(deny)\<close> before
  \<^verbatim>\<open>remove_undefined\<close> sees them. With \<^verbatim>\<open>allow\<close> left unset the body is not
  without the key \<^verbatim>\<open>allow\<close>: it carries the text of the sentinel,
  \<^verbatim>\<open>str(MISSING)\<close>. With an explicit \<^verbatim>\<open>allow=None\<close> the body carries the text
  \<^verbatim>\<open>str(None)\<close> where the claim asks for a null value. The sibling
  \<^verbatim>\<open>modify_channel\<close> passes its arguments to \<^verbatim>\<open>remove_undefined\<close> as they
  are.
\<close>

theorem unset_permission_serialised:
  "map_of (edit_channel_permissions rp ms type MISSING deny) ''allow'' = Some (PStr ms) \<and>
   map_of (edit_channel_permissions rp ms type (Given PNone) deny) ''allow'' = Some (PStr (rp PNone)) \<and>
   edit_channel_permissions rp ms (Given (PInt 0)) MISSING MISSING
     = [(''allow'', PStr ms), (''deny'', PStr ms), (''type'', PInt 0)]"
  by (simp add: edit_channel_permissions_def)

subsection \<open>Option.__init__ with autocomplete\<close>

text \<open>
  C10. An \<^verbatim>\<open>Option\<close> constructed with a truthy \<^verbatim>\<open>autocomplete\<close> has
  \<^verbatim>\<open>choices == []\<close> whatever \<^verbatim>\<open>choices\<close> was passed, keeps the passed
  choices in \<^verbatim>\<open>_choices\<close> (the empty list when none was passed), and its
  \<^verbatim>\<open>to_dict()\<close> carries \<^verbatim>\<open>'choices': []\<close>.
\<close>

theorem autocomplete_hides_choices:
  "truthy_maybe (a_autocomplete a) \<Longrightarrow> Option_init a = Inr opt \<Longrightarrow>
   o_choices (attrs opt) = Given (PList []) \<and>
   o_private_choices (attrs opt) = Some (case a_choices a of MISSING \<Rightarrow> [] | Given cs \<Rightarrow> cs) \<and>
   map_of (to_dict opt) ''choices'' = Some (PList [])"
  by (cases "a_choices a")
     (auto simp: Option_init_def map_of_to_dict to_dict_kwargs_def split: sum.splits)

theorem autocomplete_hides_choices_witness:
  "truthy_maybe (a_autocomplete color_args) \<and>
   (case Option_init color_args of
      Inl e \<Rightarrow> False
    | Inr opt \<Rightarrow>
        o_choices (attrs opt) = Given (PList []) \<and>
        o_private_choices (attrs opt)
          = Some [CommandChoice ''Red'' PNone PNone, CommandChoice ''Green'' PNone PNone] \<and>
        map_of (to_dict opt) ''choices'' = Some (PList []))"
proof -
  have t: "truthy_maybe (a_autocomplete color_args)"
    by (simp add: color_args_def default_args_def)
  obtain opt where o: "Option_init color_args = Inr opt"
    by (simp add: Option_init_def color_args_def default_args_def)
  have c: "a_choices color_args
             = Given [CommandChoice ''Red'' PNone PNone, CommandChoice ''Green'' PNone PNone]"
    by (simp add: color_args_def default_args_def)
  from autocomplete_hides_choices [OF t o] t o c show ?thesis by simp
qed

subsection \<open>Registering a command twice\<close>

lemma instantiate_first:
  assumes "ac_guild_id self = Some g" "g \<noteq> 0" "\<not> ac_created self" "update_commands S"
    "ac_name self \<in> set (application_command_names S)" "pf_guild P g = [c]"
    "rc_name c = ac_name self" "rc_type c = ac_type self"
  shows "instantiate S P self =
     (None,
      P\<lparr>pf_guild := (pf_guild P)(g := [c\<lparr>rc_name := ac_name self, rc_type := ac_type self,
                                          rc_options := ac_options_payload self\<rparr>])\<rparr>,
      self\<lparr>ac_id := Given (PInt (rc_id c)), ac_created := True\<rparr>)"
  using assms
  by (simp add: instantiate_def instantiate_guild_def get_guild_application_commands_def
      edit_guild_application_command_def edit_in_def Let_def)

lemma instantiate_second:
  assumes "ac_guild_id self = Some g" "g \<noteq> 0" "ac_created self" "update_commands S"
    "ac_name self \<in> set (application_command_names S)" "pf_guild P g = [c]"
    "rc_name c = ac_name self" "rc_type c = ac_type self"
  shows "instantiate S P self = (None, P\<lparr>pf_guild := (pf_guild P)(g := [])\<rparr>, self)"
  using assms
  by (simp add: instantiate_def instantiate_guild_def get_guild_application_commands_def
      delete_guild_application_command_def delete_from_def Let_def)

text \<open>From a guild with no command registered, two calls leave exactly one: the first
  creates it (without setting \<^verbatim>\<open>_created\<close>), the second edits it.\<close>

lemma instantiate_twice_from_empty:
  assumes "ac_guild_id self = Some g" and "g \<noteq> 0" and "\<not> ac_created self"
    and "update_commands S" and "ac_name self \<in> set (application_command_names S)"
    and "pf_guild P g = []"
  shows "\<exists>P1 self1 P2 self2.
           instantiate S P self = (None, P1, self1) \<and>
           instantiate S P1 self1 = (None, P2, self2) \<and>
           length (registered P2 g self2) = 1"
  using assms
  by (simp add: instantiate_def instantiate_guild_def get_guild_application_commands_def
      create_guild_application_command_def edit_guild_application_command_def edit_in_def
      registered_def Let_def)

text \<open>
  C3 (the code departs from the claim). Take a guild command that this process declares,
  the update policy on, and a guild whose only registered command already has the
  command's name and type. The first \<^verbatim>\<open>instantiate()\<close> edits that command and sets
  \<^verbatim>\<open>_created\<close>; the second finds it again, takes the branch
  \<^verbatim>\<open>if self._created is True\<close> and deletes it; nothing is created afterwards.
  After the two calls the guild has no command left, where the claim asks for exactly
  one.
\<close>

theorem instantiate_twice_unregisters:
  assumes "ac_guild_id self = Some g" and "g \<noteq> 0" and "\<not> ac_created self"
    and "update_commands S" and "ac_name self \<in> set (application_command_names S)"
    and "pf_guild P g = [c]" and "rc_name c = ac_name self" and "rc_type c = ac_type self"
  shows "\<exists>P1 self1 P2 self2.
           instantiate S P self = (None, P1, self1) \<and>
           length (registered P1 g self1) = 1 \<and>
           instantiate S P1 self1 = (None, P2, self2) \<and>
           pf_guild P2 g = [] \<and> registered P2 g self2 = []"
proof -
  let ?c = "c\<lparr>rc_name := ac_name self, rc_type := ac_type self,
               rc_options := ac_options_payload self\<rparr>"
  let ?P1 = "P\<lparr>pf_guild := (pf_guild P)(g := [?c])\<rparr>"
  let ?self1 = "self\<lparr>ac_id := Given (PInt (rc_id c)), ac_created := True\<rparr>"
  have 1: "instantiate S P self = (None, ?P1, ?self1)"
    using assms by (rule instantiate_first)
  have 2: "instantiate S ?P1 ?self1 = (None, ?P1\<lparr>pf_guild := (pf_guild ?P1)(g := [])\<rparr>, ?self1)"
    by (rule instantiate_second [where c = ?c]) (use assms in simp_all)
  have 3: "length (registered ?P1 g ?self1) = 1"
    by (simp add: registered_def)
  have 4: "pf_guild (?P1\<lparr>pf_guild := (pf_guild ?P1)(g := [])\<rparr>) g = []"
    by simp
  have 5: "registered (?P1\<lparr>pf_guild := (pf_guild ?P1)(g := [])\<rparr>) g ?self1 = []"
    by (simp add: registered_def)
  from 1 2 3 4 5 show ?thesis by blast
qed

theorem instantiate_twice_unregisters_witness:
  "ac_guild_id guild_command = Some 42 \<and> \<not> ac_created guild_command \<and>
   update_commands bot_state \<and>
   ac_name guild_command \<in> set (application_command_names bot_state) \<and>
   length (registered registered_platform 42 guild_command) = 1 \<and>
   (case instantiate bot_state registered_platform guild_command of
      (r1, P1, self1) \<Rightarrow>
        r1 = None \<and> length (registered P1 42 self1) = 1 \<and>
        (case instantiate bot_state P1 self1 of
           (r2, P2, self2) \<Rightarrow> r2 = None \<and> pf_guild P2 42 = [] \<and> registered P2 42 self2 = []))"
proof -
  have h: "ac_guild_id guild_command = Some 42" "(42::int) \<noteq> 0" "\<not> ac_created guild_command"
    "update_commands bot_state"
    "ac_name guild_command \<in> set (application_command_names bot_state)"
    "pf_guild registered_platform 42 = [\<lparr>rc_id = 7, rc_name = ''top'', rc_type = 1, rc_options = []\<rparr>]"
    "rc_name \<lparr>rc_id = 7, rc_name = ''top'', rc_type = 1, rc_options = []\<rparr> = ac_name guild_command"
    "rc_type \<lparr>rc_id = 7, rc_name = ''top'', rc_type = 1, rc_options = []\<rparr> = ac_type guild_command"
    by (simp_all add: guild_command_def plain_command_def bot_state_def registered_platform_def)
  have r: "length (registered registered_platform 42 guild_command) = 1"
    by (simp add: registered_def registered_platform_def guild_command_def plain_command_def)
  from instantiate_twice_unregisters [OF h] obtain P1 self1 P2 self2 where
    "instantiate bot_state registered_platform guild_command = (None, P1, self1)"
    "length (registered P1 42 self1) = 1"
    "instantiate bot_state P1 self1 = (None, P2, self2)"
    "pf_guild P2 42 = []" "registered P2 42 self2 = []"
    by blast
  with h r show ?thesis by simp
qed

subsection \<open>Dispatch into a group\<close>

lemma command_clears_callback:
  "ac_subs cmd = Some [] \<Longrightarrow> ApplicationCommand_command cmd n d nl dl f = Inr (cmd', sub) \<Longrightarrow>
   ac_callback cmd' = None \<and> ac_options_dict cmd' = [(n, sub)] \<and> ac_subs cmd' = Some [(n, sub)]"
  by (auto simp: ApplicationCommand_command_def Option_init_sub_command Let_def split: if_splits)

text \<open>Were the command's callback still set, the walk would stop one step later: the
  group node recurses on the same command, whose \<^verbatim>\<open>_options_dict\<close> holds the group
  alone, so the sub-command node is a missing key.\<close>

lemma group_dispatch_lookup:
  assumes "ac_callback self = Some f" and "ac_options_dict self = [(NStr g, grp)]" and "s \<noteq> g"
  shows "process_options R self interaction
           [InteractionOption g 2 val [InteractionOption s 1 val' leaves]] grouped
         = (Inl KeyError, [Called f [] []])"
  using assms by (simp add: process_options_def dict_getitem_def)

text \<open>
  C2 (the code departs from the claim). A command gets its group through
  \<^verbatim>\<open>ApplicationCommand.command\<close>, which sets \<^verbatim>\<open>self._callback = None\<close> on the
  first sub-command. On an interaction whose first node is that group (type 2),
  \<^verbatim>\<open>_process_options\<close> reaches \<^verbatim>\<open>await self._callback(interaction)\<close> and raises
  \<^verbatim>\<open>TypeError\<close>: no callback is invoked, neither the group's nor the
  sub-command's, and no binding is returned.
\<close>

theorem group_dispatch_raises:
  assumes "ac_subs cmd = Some []"
    and "ApplicationCommand_command cmd (NStr name) d nl dl f = Inr (cmd', grp)"
  shows "process_options R cmd' interaction (InteractionOption name 2 val opts # rest) grouped
           = (Inl TypeError, [])"
proof -
  from command_clears_callback [OF assms]
  have "ac_callback cmd' = None" "ac_options_dict cmd' = [(NStr name, grp)]" by simp_all
  then show ?thesis by (simp add: process_options_def dict_getitem_def)
qed

theorem group_dispatch_raises_witness:
  "ac_subs top_command = Some [] \<and>
   (case ApplicationCommand_command top_command (NStr ''grp'') NMissing MISSING MISSING grp_fn of
      Inl e \<Rightarrow> False
    | Inr (cmd', grp) \<Rightarrow>
        (case Option_command grp (NStr ''sub'') NNone MISSING MISSING sub_fn of
           Inl e \<Rightarrow> False
         | Inr (grp', sub) \<Rightarrow> o_type (attrs grp') = 2 \<and> o_callback (attrs sub) = Fn sub_fn) \<and>
        process_options plain_runtime cmd' grp_interaction grp_nodes False = (Inl TypeError, []))"
proof -
  have s: "ac_subs top_command = Some []" and t: "ac_type top_command = 1"
    by (simp_all add: top_command_def plain_command_def)
  from ApplicationCommand_command_sub [OF t s, of "NStr ''grp''" NMissing MISSING MISSING grp_fn]
  obtain cmd' grp where
    c: "ApplicationCommand_command top_command (NStr ''grp'') NMissing MISSING MISSING grp_fn
          = Inr (cmd', grp)"
    and l: "o_level (attrs grp) = 1" "o_type (attrs grp) = 1"
    by blast
  from l have "o_level (attrs grp) \<noteq> 2" by simp
  from Option_command_makes_group [OF this l(2), of "NStr ''sub''" NNone MISSING MISSING sub_fn]
  obtain grp' sub where
    o: "Option_command grp (NStr ''sub'') NNone MISSING MISSING sub_fn = Inr (grp', sub)"
       "o_type (attrs grp') = 2" "o_callback (attrs sub) = Fn sub_fn"
    by blast
  from group_dispatch_raises [OF s c, of plain_runtime grp_interaction]
  have "process_options plain_runtime cmd' grp_interaction grp_nodes False = (Inl TypeError, [])"
    by (simp add: grp_nodes_def)
  with s c o show ?thesis by simp
qed

subsection \<open>Resolved-entity lookups\<close>















text \<open>The sample command and interactions.\<close>

lemma who_lookup: "dict_getitem (ac_options_dict who_command) (NStr ''target'') = Inr target_option"
  by (simp add: who_command_def plain_command_def dict_getitem_def)

lemma who_param: "o_param (attrs target_option) = Some ''target''"
  by (simp add: target_option_def)

lemma who_resolved: "resolved (who_interaction maps guild) = Inr (PDict maps)"
  by (simp add: resolved_def who_interaction_def dict_getitem_def)

lemma who_guild: "i_guild_id (who_interaction maps guild) = guild"
  by (simp add: who_interaction_def)




subsection \<open>Mentionable nodes\<close>

lemma loop_leaf:
  "dict_getitem (ac_options_dict self) (NStr name) = Inr opt \<Longrightarrow> type \<noteq> 1 \<Longrightarrow> type \<noteq> 2 \<Longrightarrow>
   process_options_loop R self interaction (InteractionOption name type val opts # rest) grouped binding tr =
     (case bind_leaf R interaction opt type val binding of
        Inl e \<Rightarrow> (Inl e, tr)
      | Inr b \<Rightarrow> process_options_loop R self interaction rest grouped b tr)"
  by simp

lemma mentionable_role_leaf:
  assumes "resolved interaction = Inr (PDict d)" "map_of d ''roles'' = Some roles" "truthy roles"
    "getitem roles val = Inr rd" "Role R rd = Inr r" "o_param (attrs opt) = Some p"
  shows "bind_leaf R interaction opt 9 val binding = Inr (AList.update p (Obj r) binding)"
  using assms
  by (simp add: bind_leaf_def bind_result_def resolved_lookup_def dict_getitem_def bind_param_def)

lemma roles_falsy_get:
  "map_of d ''roles'' = None \<or> (\<exists>roles. map_of d ''roles'' = Some roles \<and> \<not> truthy roles) \<Longrightarrow>
   \<exists>v. py_get (PDict d) ''roles'' = Inr v \<and> \<not> truthy v"
  by auto

lemma mentionable_user_leaf:
  assumes "resolved interaction = Inr (PDict d)"
    "map_of d ''roles'' = None \<or> (\<exists>roles. map_of d ''roles'' = Some roles \<and> \<not> truthy roles)"
    "map_of d ''users'' = Some users" "getitem users val = Inr ud" "User R ud = Inr u"
    "o_param (attrs opt) = Some p"
  shows "\<not> guild_truthy (i_guild_id interaction) \<Longrightarrow>
           bind_leaf R interaction opt 9 val binding = Inr (AList.update p (Obj u) binding)"
    and "guild_truthy (i_guild_id interaction) \<Longrightarrow> map_of d ''members'' = Some members \<Longrightarrow>
           getitem members val = Inr md \<Longrightarrow> Member R md None = Inr m \<Longrightarrow>
           bind_leaf R interaction opt 9 val binding
             = Inr (AList.update p (Obj (set_user R m u)) binding)"
proof -
  from roles_falsy_get [OF assms(2)] obtain v where
    v: "py_get (PDict d) ''roles'' = Inr v" "\<not> truthy v" by blast
  show "\<not> guild_truthy (i_guild_id interaction) \<Longrightarrow>
           bind_leaf R interaction opt 9 val binding = Inr (AList.update p (Obj u) binding)"
    using assms(1,3-6) v
    by (simp add: bind_leaf_def bind_result_def resolved_lookup_def resolve_user_def
        dict_getitem_def bind_param_def del: py_get.simps)
  show "guild_truthy (i_guild_id interaction) \<Longrightarrow> map_of d ''members'' = Some members \<Longrightarrow>
           getitem members val = Inr md \<Longrightarrow> Member R md None = Inr m \<Longrightarrow>
           bind_leaf R interaction opt 9 val binding
             = Inr (AList.update p (Obj (set_user R m u)) binding)"
    using assms(1,3-6) v
    by (simp add: bind_leaf_def bind_result_def resolved_lookup_def resolve_user_def
        dict_getitem_def bind_param_def del: py_get.simps)
qed

text \<open>
  C5, the claim as stated fails. The interaction below resolves a role for another
  option, so \<^verbatim>\<open>resolved['roles']\<close> is a non-empty map, and the mentionable node
  names the user 5, who is in \<^verbatim>\<open>resolved['users']\<close>. The branch for type 9 tests
  the whole roles map, subscripts it with the id 5 and raises \<^verbatim>\<open>KeyError\<close>: no role
  is bound, and none could be, since the map holds no role of that id. The same node
  with type 6 is bound to the user.
\<close>

theorem mentionable_claim_counterexample:
  "truthy (PDict [(''7'', other_role_payload)]) \<and>
   process_options plain_runtime who_command
     (who_interaction [(''roles'', PDict [(''7'', other_role_payload)]),
                       (''users'', PDict [(''5'', user_payload)])] MISSING)
     [target_node 9] False
     = (Inl KeyError, []) \<and>
   process_options plain_runtime who_command
     (who_interaction [(''roles'', PDict [(''7'', other_role_payload)]),
                       (''users'', PDict [(''5'', user_payload)])] MISSING)
     [target_node 6] False
     = (Inr [(''target'', Obj (UserE user_payload))], [])"
  using who_lookup who_param
  by (simp add: process_options_def target_node_def bind_leaf_def resolve_user_def
      resolved_lookup_def who_resolved who_guild bind_result_def bind_param_def dict_getitem_def
      plain_runtime_def)

text \<open>
  C5 as amended. A mentionable node (type 9) whose name is registered in
  \<^verbatim>\<open>_options_dict\<close> with an option that has its parameter name
  (\<^verbatim>\<open>_param\<close>), in an interaction whose \<^verbatim>\<open>data['resolved']\<close> is a dictionary.
  When \<^verbatim>\<open>resolved['roles']\<close> is present and true (a non-empty map), holds the
  node's id, and \<^verbatim>\<open>Role\<close> returns an object for that entry, the node is bound to
  that role; \<^verbatim>\<open>resolved['users']\<close> is not read, so an entry for the same id there
  changes nothing. When \<^verbatim>\<open>roles\<close> is absent or false (an empty map),
  \<^verbatim>\<open>resolved['users']\<close> holds the id and \<^verbatim>\<open>User\<close> returns an object for
  that entry, the node is bound to that user if \<^verbatim>\<open>interaction.guild_id\<close> is false;
  and if it is true, \<^verbatim>\<open>resolved['members']\<close> holds the id and \<^verbatim>\<open>Member\<close>
  (called without \<^verbatim>\<open>guild_id\<close>) returns an object for that entry, to that member
  with the user assigned to it.
\<close>

theorem mentionable_resolution:
  assumes "dict_getitem (ac_options_dict self) (NStr name) = Inr opt"
    and "o_param (attrs opt) = Some p"
    and "resolved interaction = Inr (PDict d)"
  shows
  "(\<forall>roles rd r.
      map_of d ''roles'' = Some roles \<and> truthy roles \<and> getitem roles val = Inr rd \<and> Role R rd = Inr r \<longrightarrow>
      process_options_loop R self interaction (InteractionOption name 9 val opts # rest) grouped binding tr
        = process_options_loop R self interaction rest grouped (AList.update p (Obj r) binding) tr) \<and>
   (\<forall>users ud u.
      (map_of d ''roles'' = None \<or> (\<exists>roles. map_of d ''roles'' = Some roles \<and> \<not> truthy roles)) \<and>
      map_of d ''users'' = Some users \<and> getitem users val = Inr ud \<and> User R ud = Inr u \<longrightarrow>
      (\<not> guild_truthy (i_guild_id interaction) \<longrightarrow>
         process_options_loop R self interaction (InteractionOption name 9 val opts # rest) grouped binding tr
           = process_options_loop R self interaction rest grouped (AList.update p (Obj u) binding) tr) \<and>
      (\<forall>members md m.
         guild_truthy (i_guild_id interaction) \<and> map_of d ''members'' = Some members \<and>
         getitem members val = Inr md \<and> Member R md None = Inr m \<longrightarrow>
         process_options_loop R self interaction (InteractionOption name 9 val opts # rest) grouped binding tr
           = process_options_loop R self interaction rest grouped
               (AList.update p (Obj (set_user R m u)) binding) tr))"
proof -
  have l: "process_options_loop R self interaction (InteractionOption name 9 val opts # rest) grouped binding tr =
     (case bind_leaf R interaction opt 9 val binding of
        Inl e \<Rightarrow> (Inl e, tr)
      | Inr b \<Rightarrow> process_options_loop R self interaction rest grouped b tr)"
    using assms(1) by (simp add: loop_leaf)
  show ?thesis
  proof (intro conjI allI impI)
    fix roles rd r
    assume a: "map_of d ''roles'' = Some roles \<and> truthy roles \<and> getitem roles val = Inr rd \<and> Role R rd = Inr r"
    from a have a1: "map_of d ''roles'' = Some roles" and a2: "truthy roles"
      and a3: "getitem roles val = Inr rd" and a4: "Role R rd = Inr r" by simp_all
    have "bind_leaf R interaction opt 9 val binding = Inr (AList.update p (Obj r) binding)"
      by (rule mentionable_role_leaf [OF assms(3) a1 a2 a3 a4 assms(2)])
    then show "process_options_loop R self interaction (InteractionOption name 9 val opts # rest) grouped binding tr
        = process_options_loop R self interaction rest grouped (AList.update p (Obj r) binding) tr"
      unfolding l by simp
  next
    fix users ud u
    assume a: "(map_of d ''roles'' = None \<or> (\<exists>roles. map_of d ''roles'' = Some roles \<and> \<not> truthy roles)) \<and>
      map_of d ''users'' = Some users \<and> getitem users val = Inr ud \<and> User R ud = Inr u"
    assume g: "\<not> guild_truthy (i_guild_id interaction)"
    from a have a1: "map_of d ''roles'' = None \<or> (\<exists>roles. map_of d ''roles'' = Some roles \<and> \<not> truthy roles)"
      and a2: "map_of d ''users'' = Some users" and a3: "getitem users val = Inr ud"
      and a4: "User R ud = Inr u" by simp_all
    have "bind_leaf R interaction opt 9 val binding = Inr (AList.update p (Obj u) binding)"
      by (rule mentionable_user_leaf(1) [OF assms(3) a1 a2 a3 a4 assms(2) g])
    then show "process_options_loop R self interaction (InteractionOption name 9 val opts # rest) grouped binding tr
           = process_options_loop R self interaction rest grouped (AList.update p (Obj u) binding) tr"
      unfolding l by simp
  next
    fix users ud u members md m
    assume a: "(map_of d ''roles'' = None \<or> (\<exists>roles. map_of d ''roles'' = Some roles \<and> \<not> truthy roles)) \<and>
      map_of d ''users'' = Some users \<and> getitem users val = Inr ud \<and> User R ud = Inr u"
    assume b: "guild_truthy (i_guild_id interaction) \<and> map_of d ''members'' = Some members \<and>
         getitem members val = Inr md \<and> Member R md None = Inr m"
    from a have a1: "map_of d ''roles'' = None \<or> (\<exists>roles. map_of d ''roles'' = Some roles \<and> \<not> truthy roles)"
      and a2: "map_of d ''users'' = Some users" and a3: "getitem users val = Inr ud"
      and a4: "User R ud = Inr u" by simp_all
    from b have b1: "guild_truthy (i_guild_id interaction)" and b2: "map_of d ''members'' = Some members"
      and b3: "getitem members val = Inr md" and b4: "Member R md None = Inr m" by simp_all
    have "bind_leaf R interaction opt 9 val binding
            = Inr (AList.update p (Obj (set_user R m u)) binding)"
      by (rule mentionable_user_leaf(2) [OF assms(3) a1 a2 a3 a4 assms(2) b1 b2 b3 b4])
    then show "process_options_loop R self interaction (InteractionOption name 9 val opts # rest) grouped binding tr
           = process_options_loop R self interaction rest grouped
               (AList.update p (Obj (set_user R m u)) binding) tr"
      unfolding l by simp
  qed
qed

theorem mentionable_resolution_witness:
  "dict_getitem (ac_options_dict who_command) (NStr ''target'') = Inr target_option \<and>
   o_param (attrs target_option) = Some ''target'' \<and>
   process_options plain_runtime who_command
     (who_interaction [(''roles'', PDict [(''5'', role_payload)]),
                       (''users'', PDict [(''5'', user_payload)])] MISSING)
     [target_node 9] False
     = (Inr [(''target'', Obj (RoleE role_payload))], []) \<and>
   process_options plain_runtime who_command
     (who_interaction [(''users'', PDict [(''5'', user_payload)])] MISSING)
     [target_node 9] False
     = (Inr [(''target'', Obj (UserE user_payload))], []) \<and>
   process_options plain_runtime who_command
     (who_interaction [(''roles'', PDict []), (''users'', PDict [(''5'', user_payload)]),
                       (''members'', PDict [(''5'', member_payload)])] (Given 42))
     [target_node 9] False
     = (Inr [(''target'', Obj (MemberE member_payload None (Some (UserE user_payload))))], [])"
proof -
  let ?i1 = "who_interaction [(''roles'', PDict [(''5'', role_payload)]),
                       (''users'', PDict [(''5'', user_payload)])] MISSING"
  let ?i2 = "who_interaction [(''users'', PDict [(''5'', user_payload)])] MISSING"
  let ?i3 = "who_interaction [(''roles'', PDict []), (''users'', PDict [(''5'', user_payload)]),
                       (''members'', PDict [(''5'', member_payload)])] (Given 42)"
  have 1: "process_options plain_runtime who_command ?i1 [target_node 9] False
     = (Inr [(''target'', Obj (RoleE role_payload))], [])"
    using mentionable_resolution [OF who_lookup who_param who_resolved,
        of "[(''roles'', PDict [(''5'', role_payload)]), (''users'', PDict [(''5'', user_payload)])]"
           "Given (PStr ''5'')" plain_runtime MISSING "[]" "[]" False "[]" "[]",
        THEN conjunct1, rule_format,
        of "PDict [(''5'', role_payload)]" role_payload "RoleE role_payload"]
    by (simp add: process_options_def target_node_def plain_runtime_def dict_getitem_def)
  have 2: "process_options plain_runtime who_command ?i2 [target_node 9] False
     = (Inr [(''target'', Obj (UserE user_payload))], [])"
    using mentionable_resolution [OF who_lookup who_param who_resolved,
        of "[(''users'', PDict [(''5'', user_payload)])]"
           "Given (PStr ''5'')" plain_runtime MISSING "[]" "[]" False "[]" "[]",
        THEN conjunct2, rule_format,
        of "PDict [(''5'', user_payload)]" user_payload "UserE user_payload",
        THEN conjunct1]
    by (simp add: process_options_def target_node_def plain_runtime_def dict_getitem_def
        who_guild)
  have 3: "process_options plain_runtime who_command ?i3 [target_node 9] False
     = (Inr [(''target'', Obj (MemberE member_payload None (Some (UserE user_payload))))], [])"
    using mentionable_resolution [OF who_lookup who_param who_resolved,
        of "[(''roles'', PDict []), (''users'', PDict [(''5'', user_payload)]),
             (''members'', PDict [(''5'', member_payload)])]"
           "Given (PStr ''5'')" plain_runtime "Given 42" "[]" "[]" False "[]" "[]",
        THEN conjunct2, rule_format,
        of "PDict [(''5'', user_payload)]" user_payload "UserE user_payload",
        THEN conjunct2, rule_format,
        of "PDict [(''5'', member_payload)]" member_payload "MemberE member_payload None None"]
    by (simp add: process_options_def target_node_def plain_runtime_def dict_getitem_def
        who_guild)
  from who_lookup who_param 1 2 3 show ?thesis by simp
qed

subsection \<open>Autocomplete\<close>

lemma autocomplete_choices_all:
  "\<forall>c \<in> set cs. c_value c = Some (c_name c) \<Longrightarrow>
   autocomplete_choices lw s cs =
     Inr (map choice_dict (filter (\<lambda>c. str_contains s (lw (c_name c))) cs))"
  by (induction cs) (auto simp: choice_to_dict_def choice_dict_def bind_result_def)

lemma autocomplete_all:
  "o_private_choices (attrs opt) = Some cs \<Longrightarrow> \<forall>c \<in> set cs. c_value c = Some (c_name c) \<Longrightarrow>
   autocomplete rp lw opt s =
     Inr (PList (map choice_dict
       (filter (\<lambda>c. str_contains (lw (py_str rp s)) (lw (c_name c))) cs)))"
  by (simp add: autocomplete_def autocomplete_choices_all)

text \<open>A choice built with an explicit \<^verbatim>\<open>value\<close> has no attribute
  \<^verbatim>\<open>value\<close>, and the default completer raises on a list that holds one.\<close>

lemma autocomplete_choices_without_value:
  "c \<in> set cs \<Longrightarrow> c_value c = None \<Longrightarrow> autocomplete_choices lw s cs = Inl AttributeError"
  by (induction cs) (auto simp: bind_result_def choice_to_dict_def split: option.splits)

lemma letter_values: "\<forall>c \<in> set letter_choices. c_value c = Some (c_name c)"
  by (simp add: letter_choices_def CommandChoice_def)

lemma invoke_first:
  assumes "i_type interaction = 4" "i_data interaction = Given (PDict d)"
    "map_of d ''name'' = Some (PStr (ac_name self))"
    "map_of d ''options'' = Some (PList (node # nodes))"
    "getitem node (Given (PStr ''name'')) = Inr (PStr k)"
    "getitem node (Given (PStr ''value'')) = Inr v"
    "dict_getitem (ac_options_dict self) (NStr k) = Inr real_option"
  shows "invoke R self interaction =
     (case run_completer R (o_autocompleter (attrs real_option)) real_option v of
        Inl e \<Rightarrow> (Some e, [Completer_called (o_autocompleter (attrs real_option)) real_option v])
      | Inr choices \<Rightarrow>
          (response_autocomplete R choices,
           [Completer_called (o_autocompleter (attrs real_option)) real_option v,
            Autocomplete_sent choices]))"
  using assms
  by (simp add: invoke_def invoke_autocomplete_def and_then_def data_get_def data_getitem_def
      dict_getitem_def seq_getitem_def split: sum.splits)

lemma letter_all:
  "autocomplete (\<lambda>v. []) lower letter_option (PStr '''')
     = Inr (PList (map choice_dict letter_choices))"
  using autocomplete_all [of letter_option letter_choices "\<lambda>v. []" lower "PStr ''''"] letter_values
  by (simp add: letter_option_def str_contains_def lower_def)

text \<open>
  C7, the claim as stated fails. In the request below the focused node is
  \<^verbatim>\<open>size\<close>, whose completer is the caller's \<^verbatim>\<open>sizes\<close>; \<^verbatim>\<open>_invoke\<close> takes
  \<^verbatim>\<open>interaction.data['options'][0]\<close>, the node \<^verbatim>\<open>letter\<close>, and awaits the default
  completer on it; and the default completer returns all 26 matching choices, above the
  platform's 25.
\<close>

theorem autocomplete_claim_counterexample:
  "getitem size_node (Given (PStr ''focused'')) = Inr (PBool True) \<and>
   o_autocompleter (attrs size_option) = Custom ''sizes'' \<and>
   invoke plain_runtime pick_command (pick_interaction [letter_node, size_node]) =
     (None, [Completer_called Default_autocomplete letter_option (PStr ''''),
             Autocomplete_sent (PList (map choice_dict letter_choices))]) \<and>
   length (map choice_dict letter_choices) = 26 \<and> max_choices < 26"
proof -
  have i: "invoke plain_runtime pick_command (pick_interaction [letter_node, size_node]) =
     (case run_completer plain_runtime (o_autocompleter (attrs letter_option)) letter_option (PStr '''') of
        Inl e \<Rightarrow> (Some e, [Completer_called (o_autocompleter (attrs letter_option)) letter_option (PStr '''')])
      | Inr choices \<Rightarrow>
          (response_autocomplete plain_runtime choices,
           [Completer_called (o_autocompleter (attrs letter_option)) letter_option (PStr ''''),
            Autocomplete_sent choices]))"
    by (rule invoke_first [of "pick_interaction [letter_node, size_node]"
          "[(''name'', PStr ''pick''), (''type'', PInt 1),
            (''options'', PList [letter_node, size_node])]"
          pick_command letter_node "[size_node]" "''letter''" "PStr []" letter_option plain_runtime])
       (simp_all add: pick_interaction_def pick_command_def plain_command_def letter_node_def
          dict_getitem_def)
  have c: "o_autocompleter (attrs letter_option) = Default_autocomplete"
    by (simp add: letter_option_def)
  have r: "repr plain_runtime = (\<lambda>v. [])" "str_lower plain_runtime = lower"
    "response_autocomplete plain_runtime = (\<lambda>choices. None)"
    by (simp_all add: plain_runtime_def)
  have "invoke plain_runtime pick_command (pick_interaction [letter_node, size_node]) =
     (None, [Completer_called Default_autocomplete letter_option (PStr ''''),
             Autocomplete_sent (PList (map choice_dict letter_choices))])"
    unfolding i c by (simp add: r letter_all)
  moreover have "getitem size_node (Given (PStr ''focused'')) = Inr (PBool True)"
    by (simp add: size_node_def dict_getitem_def)
  moreover have "o_autocompleter (attrs size_option) = Custom ''sizes''"
    by (simp add: size_option_def)
  moreover have "length (map choice_dict letter_choices) = 26"
    by (simp add: letter_choices_def)
  moreover have "max_choices < 26" by (simp add: max_choices_def)
  ultimately show ?thesis by simp
qed

text \<open>
  C7 as amended. On an autocomplete request (type 4) whose data is a dictionary that
  names the command, whose first option node is the focused one and carries a value and
  the name of an option registered in \<^verbatim>\<open>_options_dict\<close>: the completer registered on
  that option is awaited with that option and the node's value; if it raises, the
  exception leaves \<^verbatim>\<open>_invoke\<close>; otherwise what it returns is handed to
  \<^verbatim>\<open>interaction.response.autocomplete\<close>. On an option that has \<^verbatim>\<open>_choices\<close>, all
  of them choices whose \<^verbatim>\<open>value\<close> is their name (those built without an explicit
  value), the default completer applies \<^verbatim>\<open>str.lower\<close> to the input and to the
  value of each choice and returns, in the order of the registered choices, the
  dictionary \<^verbatim>\<open>{name, value, name_localizations}\<close> of every choice whose lowered
  value contains the lowered input: all of them, with no cap on their number.
\<close>

theorem autocomplete_dispatch:
  "(i_type interaction = 4 \<and> i_data interaction = Given (PDict d) \<and>
    map_of d ''name'' = Some (PStr (ac_name self)) \<and>
    map_of d ''options'' = Some (PList (node # nodes)) \<and>
    getitem node (Given (PStr ''focused'')) = Inr (PBool True) \<and>
    getitem node (Given (PStr ''name'')) = Inr (PStr k) \<and>
    getitem node (Given (PStr ''value'')) = Inr v \<and>
    dict_getitem (ac_options_dict self) (NStr k) = Inr real_option \<longrightarrow>
    invoke R self interaction =
      (case run_completer R (o_autocompleter (attrs real_option)) real_option v of
         Inl e \<Rightarrow> (Some e, [Completer_called (o_autocompleter (attrs real_option)) real_option v])
       | Inr choices \<Rightarrow>
           (response_autocomplete R choices,
            [Completer_called (o_autocompleter (attrs real_option)) real_option v,
             Autocomplete_sent choices]))) \<and>
   (o_private_choices (attrs opt) = Some cs \<and> (\<forall>c \<in> set cs. c_value c = Some (c_name c)) \<longrightarrow>
    autocomplete rp lw opt s =
      Inr (PList (map choice_dict
        (filter (\<lambda>c. str_contains (lw (py_str rp s)) (lw (c_name c))) cs))))"
  using invoke_first [of interaction d self node nodes k v real_option R]
    autocomplete_all [of opt cs rp lw s]
  by blast

theorem autocomplete_dispatch_witness:
  "getitem typing_node (Given (PStr ''focused'')) = Inr (PBool True) \<and>
   dict_getitem (ac_options_dict pick_command) (NStr ''letter'') = Inr letter_option \<and>
   o_private_choices (attrs letter_option) = Some letter_choices \<and>
   map c_value letter_choices = map (\<lambda>c. Some (c_name c)) letter_choices \<and>
   autocomplete (\<lambda>v. []) lower letter_option (PStr ''B'')
     = Inr (PList [choice_dict (CommandChoice ''b'' PNone PNone)]) \<and>
   invoke plain_runtime pick_command (pick_interaction [typing_node]) =
     (None, [Completer_called Default_autocomplete letter_option (PStr ''B''),
             Autocomplete_sent (PList [choice_dict (CommandChoice ''b'' PNone PNone)])])"
proof -
  have f: "getitem typing_node (Given (PStr ''focused'')) = Inr (PBool True)"
    and n: "getitem typing_node (Given (PStr ''name'')) = Inr (PStr ''letter'')"
    and v: "getitem typing_node (Given (PStr ''value'')) = Inr (PStr ''B'')"
    by (simp_all add: typing_node_def dict_getitem_def)
  have l: "dict_getitem (ac_options_dict pick_command) (NStr ''letter'') = Inr letter_option"
    by (simp add: pick_command_def plain_command_def dict_getitem_def)
  have p: "o_private_choices (attrs letter_option) = Some letter_choices"
    and c: "o_autocompleter (attrs letter_option) = Default_autocomplete"
    by (simp_all add: letter_option_def)
  have h: "i_type (pick_interaction [typing_node]) = 4 \<and>
    i_data (pick_interaction [typing_node])
      = Given (PDict [(''name'', PStr ''pick''), (''type'', PInt 1), (''options'', PList [typing_node])]) \<and>
    map_of [(''name'', PStr ''pick''), (''type'', PInt 1), (''options'', PList [typing_node])] ''name''
      = Some (PStr (ac_name pick_command)) \<and>
    map_of [(''name'', PStr ''pick''), (''type'', PInt 1), (''options'', PList [typing_node])] ''options''
      = Some (PList (typing_node # [])) \<and>
    getitem typing_node (Given (PStr ''focused'')) = Inr (PBool True) \<and>
    getitem typing_node (Given (PStr ''name'')) = Inr (PStr ''letter'') \<and>
    getitem typing_node (Given (PStr ''value'')) = Inr (PStr ''B'') \<and>
    dict_getitem (ac_options_dict pick_command) (NStr ''letter'') = Inr letter_option"
    using f n v l by (simp add: pick_interaction_def pick_command_def plain_command_def)
  have h2: "o_private_choices (attrs letter_option) = Some letter_choices \<and>
    (\<forall>c \<in> set letter_choices. c_value c = Some (c_name c))"
    using p letter_values by blast
  have flt: "filter (\<lambda>c. str_contains (lower ''B'') (lower (c_name c))) letter_choices
               = [CommandChoice ''b'' PNone PNone]"
    by (simp add: letter_choices_def CommandChoice_def str_contains_def lower_def lower_char_def
        sublist_code)
  note t = autocomplete_dispatch [of "pick_interaction [typing_node]"
      "[(''name'', PStr ''pick''), (''type'', PInt 1), (''options'', PList [typing_node])]"
      pick_command typing_node "[]" "''letter''" "PStr ''B''" letter_option plain_runtime
      letter_option letter_choices "\<lambda>v. []" lower "PStr ''B''"]
  from t [THEN conjunct2, THEN mp, OF h2]
  have a: "autocomplete (\<lambda>v. []) lower letter_option (PStr ''B'')
     = Inr (PList [choice_dict (CommandChoice ''b'' PNone PNone)])"
    by (simp add: flt)
  from t [THEN conjunct1, THEN mp, OF h]
  have "invoke plain_runtime pick_command (pick_interaction [typing_node]) =
      (case run_completer plain_runtime (o_autocompleter (attrs letter_option)) letter_option (PStr ''B'') of
         Inl e \<Rightarrow> (Some e, [Completer_called (o_autocompleter (attrs letter_option)) letter_option (PStr ''B'')])
       | Inr choices \<Rightarrow>
           (response_autocomplete plain_runtime choices,
            [Completer_called (o_autocompleter (attrs letter_option)) letter_option (PStr ''B''),
             Autocomplete_sent choices]))" .
  then have "invoke plain_runtime pick_command (pick_interaction [typing_node]) =
     (None, [Completer_called Default_autocomplete letter_option (PStr ''B''),
             Autocomplete_sent (PList [choice_dict (CommandChoice ''b'' PNone PNone)])])"
    unfolding c using a by (simp add: plain_runtime_def)
  moreover have "map c_value letter_choices = map (\<lambda>c. Some (c_name c)) letter_choices"
    using letter_values by simp
  ultimately show ?thesis using f l p a by simp
qed

end
